theory Spec2Isabelle
  imports Main "HOL-Library.Log_Nat"
begin

section \<open>JavaScript values as the route handlers see them\<close>

text \<open>
  The handlers of \<^verbatim>\<open>routes/student.js\<close> (quiz details, start, submit) and of the
  teacher routes (question analysis) work on values decoded from JSON: the request body,
  the \<^verbatim>\<open>options\<close> column of a question and the \<^verbatim>\<open>answers\<close> column of
  an attempt. A JSON value is modelled by \<open>jsval\<close>; \<open>JUndefined\<close> is what reading
  a missing property gives.

  A number is carried with the two observations the handlers make of it: whether it is
  truthy (neither 0 nor NaN) and the text that \<^verbatim>\<open>toString()\<close> gives for it.
  A string is a list of code units; the model covers the code units below 256, one
  \<open>char\<close> each. An object is the list of its own properties; the first binding of a
  key is the property.
\<close>

datatype jsval =
    JUndefined
  | JNull
  | JBool bool
  | JNum bool string
  | JStr string
  | JArr "jsval list"
  | JObj "(string \<times> jsval) list"

text \<open>Truthiness, as used by \<^verbatim>\<open>||\<close>, \<^verbatim>\<open>&&\<close>, \<^verbatim>\<open>!\<close> and \<^verbatim>\<open>if\<close>.\<close>

fun truthy :: "jsval \<Rightarrow> bool" where
  "truthy JUndefined = False"
| "truthy JNull = False"
| "truthy (JBool b) = b"
| "truthy (JNum t s) = t"
| "truthy (JStr s) = (s \<noteq> [])"
| "truthy (JArr xs) = True"
| "truthy (JObj kvs) = True"

text \<open>\<^verbatim>\<open>typeof v === 'object'\<close>: arrays, objects and null.\<close>

fun typeof_object :: "jsval \<Rightarrow> bool" where
  "typeof_object JNull = True"
| "typeof_object (JArr xs) = True"
| "typeof_object (JObj kvs) = True"
| "typeof_object v = False"

fun isArray :: "jsval \<Rightarrow> bool" where
  "isArray (JArr xs) = True"
| "isArray v = False"

text \<open>
  \<^verbatim>\<open>v.toString()\<close>; \<open>None\<close> is a thrown TypeError. On undefined and null the
  call throws. An array joins its elements with commas, undefined and null elements giving
  the empty text. A decoded object has no callable property of its own, so an own property
  \<^verbatim>\<open>toString\<close> hides the inherited method and the call throws; otherwise the
  inherited method answers \<^verbatim>\<open>[object Object]\<close>.
\<close>

fun js_toString :: "jsval \<Rightarrow> string option"
  and js_join :: "jsval list \<Rightarrow> string option" where
  "js_toString JUndefined = None"
| "js_toString JNull = None"
| "js_toString (JBool b) = Some (if b then ''true'' else ''false'')"
| "js_toString (JNum t s) = Some s"
| "js_toString (JStr s) = Some s"
| "js_toString (JArr xs) = js_join xs"
| "js_toString (JObj kvs) =
     (if ''toString'' \<in> fst ` set kvs then None else Some ''[object Object]'')"
| "js_join [] = Some []"
| "js_join (x # xs) =
     (case (if x = JUndefined \<or> x = JNull then Some [] else js_toString x) of
        None \<Rightarrow> None
      | Some s \<Rightarrow>
          (if xs = [] then Some s
           else (case js_join xs of None \<Rightarrow> None | Some r \<Rightarrow> Some (s @ '','' @ r))))"

subsection \<open>Text: trim, lower case, decimal numerals\<close>

text \<open>The white space and line terminators below 256 that \<^verbatim>\<open>trim()\<close> and
  \<^verbatim>\<open>parseInt\<close> skip: TAB, LF, VT, FF, CR, SP, NBSP.\<close>

definition is_ws :: "char \<Rightarrow> bool" where
  "is_ws c = (c \<in> set [CHR 0x09, CHR 0x0A, CHR 0x0B, CHR 0x0C, CHR 0x0D, CHR 0x20, CHR 0xA0])"

definition trim :: "string \<Rightarrow> string" where
  "trim s = rev (dropWhile is_ws (rev (dropWhile is_ws s)))"

text \<open>\<^verbatim>\<open>toLowerCase()\<close> on code units below 256: A to Z, and the accented capitals
  0xC0 to 0xDE except the multiplication sign 0xD7.\<close>

definition lower_char :: "char \<Rightarrow> char" where
  "lower_char c =
     (let n = (of_char c :: nat)
      in if (65 \<le> n \<and> n \<le> 90) \<or> (192 \<le> n \<and> n \<le> 222 \<and> n \<noteq> 215)
         then char_of (n + 32) else c)"

definition toLowerCase :: "string \<Rightarrow> string" where
  "toLowerCase s = map lower_char s"

text \<open>\<^verbatim>\<open>x.trim().toLowerCase()\<close>, the normal form both handlers compare.\<close>

definition normalize :: "string \<Rightarrow> string" where
  "normalize s = toLowerCase (trim s)"

text \<open>The decimal text of an integer-valued number (property keys, template literals).
  The handlers' numbers are doubles; they agree with the integers here below \<open>2^53\<close>.\<close>

function show_nat :: "nat \<Rightarrow> string" where
  "show_nat n =
     (if n < 10 then [char_of (48 + n)]
      else show_nat (n div 10) @ [char_of (48 + n mod 10)])"
  by pat_completeness auto
termination
  by (relation "measure id") auto

declare show_nat.simps [simp del]

definition show_int :: "int \<Rightarrow> string" where
  "show_int i = (if i < 0 then CHR ''-'' # show_nat (nat (- i)) else show_nat (nat i))"

definition digit_of :: "nat \<Rightarrow> char \<Rightarrow> nat option" where
  "digit_of radix c =
     (let n = (of_char c :: nat);
          d = (if 48 \<le> n \<and> n \<le> 57 then n - 48
               else if 97 \<le> n \<and> n \<le> 122 then n - 87
               else if 65 \<le> n \<and> n \<le> 90 then n - 55
               else 36)
      in if d < radix then Some d else None)"

definition digits_value :: "nat \<Rightarrow> string \<Rightarrow> nat" where
  "digits_value radix z =
     foldl (\<lambda>a c. a * radix + (case digit_of radix c of Some d \<Rightarrow> d | None \<Rightarrow> 0)) 0 z"

text \<open>
  \<^verbatim>\<open>parseInt(str)\<close> without a radix; \<open>None\<close> is NaN. Leading white space is
  skipped, a sign is read, a prefix \<^verbatim>\<open>0x\<close> selects base 16, and the longest run of
  digits is the value; whatever follows is ignored. The value here is the exact
  integer. The handlers' value is the nearest double: the two agree below \<open>2^53\<close>,
  and from there on only where the value is used as an index that is out of range (an
  array or a text); a property of an object named by such a number is outside the model.
\<close>

definition parseInt :: "string \<Rightarrow> int option" where
  "parseInt str =
     (let S = dropWhile is_ws str;
          neg = (take 1 S = ''-'');
          S1 = (if take 1 S = ''+'' \<or> take 1 S = ''-'' then drop 1 S else S);
          hex = (take 2 S1 = ''0x'' \<or> take 2 S1 = ''0X'');
          R = (if hex then 16 else 10);
          S2 = (if hex then drop 2 S1 else S1);
          Z = takeWhile (\<lambda>c. digit_of R c \<noteq> None) S2
      in if Z = [] then None
         else Some ((if neg then - 1 else 1) * int (digits_value R Z)))"

subsection \<open>Property access\<close>

text \<open>A property key is an array index when it is the decimal text of a natural number.\<close>

definition array_index :: "string \<Rightarrow> nat option" where
  "array_index k =
     (if k \<noteq> [] \<and> list_all (\<lambda>c. digit_of 10 c \<noteq> None) k \<and> show_nat (digits_value 10 k) = k
      then Some (digits_value 10 k) else None)"

text \<open>
  \<^verbatim>\<open>v[k]\<close> for a key \<open>k\<close> that is the text of an integer or a name such as
  \<^verbatim>\<open>question-0\<close> (the handlers use no other key). \<open>None\<close> is the TypeError of
  reading a property of undefined or null. A number key reads the property named by its
  decimal text, so \<^verbatim>\<open>v[0]\<close> and \<^verbatim>\<open>v["0"]\<close> are the same read.
\<close>

fun js_get :: "jsval \<Rightarrow> string \<Rightarrow> jsval option" where
  "js_get JUndefined k = None"
| "js_get JNull k = None"
| "js_get (JBool b) k = Some JUndefined"
| "js_get (JNum t s) k = Some JUndefined"
| "js_get (JStr s) k =
     (case array_index k of
        None \<Rightarrow> Some JUndefined
      | Some i \<Rightarrow> if i < length s then Some (JStr [s ! i]) else Some JUndefined)"
| "js_get (JArr xs) k =
     (case array_index k of
        None \<Rightarrow> Some JUndefined
      | Some i \<Rightarrow> if i < length xs then Some (xs ! i) else Some JUndefined)"
| "js_get (JObj kvs) k =
     (case map_of kvs k of None \<Rightarrow> Some JUndefined | Some v \<Rightarrow> Some v)"

section \<open>Questions and the grading of one answer\<close>

text \<open>
  A row of the \<^verbatim>\<open>questions\<close> table, with the columns the handlers read:
  \<^verbatim>\<open>question_type\<close> is an ENUM, \<^verbatim>\<open>marks\<close> an INT, \<^verbatim>\<open>options\<close>
  a JSON column (\<open>JNull\<close> when NULL) and \<^verbatim>\<open>correct_answer\<close> a nullable TEXT.
\<close>

datatype question_type = mcq | short_answer | long_answer

record question =
  question_id :: nat
  question_quiz_id :: nat
  question_type :: question_type
  marks :: int
  options :: jsval
  correct_answer :: "string option"

text \<open>
  \<^verbatim>\<open>answers[index] || answers[index.toString()] || answers[`question-${index}`] || ''\<close>,
  the same line in the submit handler and in the question analysis. The number key and the
  text key name the same property. \<open>None\<close> is the TypeError when \<open>answers\<close> is
  undefined or null.
\<close>

definition studentAnswer :: "jsval \<Rightarrow> nat \<Rightarrow> jsval option" where
  "studentAnswer answers index =
     (case js_get answers (show_nat index) of
        None \<Rightarrow> None
      | Some a \<Rightarrow>
          if truthy a then Some a
          else (case js_get answers (show_nat index) of
                  None \<Rightarrow> None
                | Some b \<Rightarrow>
                    if truthy b then Some b
                    else (case js_get answers (''question-'' @ show_nat index) of
                            None \<Rightarrow> None
                          | Some c \<Rightarrow> if truthy c then Some c else Some (JStr []))))"

text \<open>\<^verbatim>\<open>question.correct_answer ? question.correct_answer.toString().trim().toLowerCase() : ''\<close>\<close>

definition normalizedCorrectAnswer :: "question \<Rightarrow> string" where
  "normalizedCorrectAnswer q =
     (case correct_answer q of
        None \<Rightarrow> []
      | Some c \<Rightarrow> if c = [] then [] else normalize c)"

text \<open>
  \<^verbatim>\<open>typeof question.options === 'string' ? JSON.parse(question.options) : question.options\<close>.
  \<^verbatim>\<open>JSON.parse\<close> belongs to the language, not to the repository: it is the parameter
  \<open>parse\<close>, with \<open>None\<close> for a thrown SyntaxError.
\<close>

definition parsedOptions :: "(string \<Rightarrow> jsval option) \<Rightarrow> question \<Rightarrow> jsval option" where
  "parsedOptions parse q = (case options q of JStr s \<Rightarrow> parse s | v \<Rightarrow> Some v)"

text \<open>
  The option-index check, written the same way in both handlers:
  \<^verbatim>\<open>parseInt(normalizedCorrectAnswer)\<close>, then
  \<^verbatim>\<open>!isNaN(correctOptionIndex) && options[correctOptionIndex]\<close>, then the comparison
  with \<^verbatim>\<open>options[correctOptionIndex].toString().trim().toLowerCase()\<close>.
  \<open>None\<close> is a thrown error.
\<close>

definition correctOptionMatch :: "jsval \<Rightarrow> string \<Rightarrow> string \<Rightarrow> bool option" where
  "correctOptionMatch opts ns nc =
     (case parseInt nc of
        None \<Rightarrow> Some False
      | Some i \<Rightarrow>
          (case js_get opts (show_int i) of
             None \<Rightarrow> None
           | Some ov \<Rightarrow>
               if truthy ov
               then (case js_toString ov of None \<Rightarrow> None | Some t \<Rightarrow> Some (ns = normalize t))
               else Some False))"

subsection \<open>The submit handler's loop (routes/student.js)\<close>

text \<open>The body of the inner \<^verbatim>\<open>try\<close> of the submit handler; \<open>Some True\<close> is
  \<^verbatim>\<open>totalScore += question.marks\<close>, \<open>None\<close> a thrown error.\<close>

definition grade_mcq :: "(string \<Rightarrow> jsval option) \<Rightarrow> question \<Rightarrow> string \<Rightarrow> string \<Rightarrow> bool option" where
  "grade_mcq parse q ns nc =
     (case parsedOptions parse q of
        None \<Rightarrow> None
      | Some opts \<Rightarrow> if ns = nc then Some True else correctOptionMatch opts ns nc)"

text \<open>
  The body of the outer \<^verbatim>\<open>try\<close> for one question. The inner \<^verbatim>\<open>catch\<close>
  only logs, so an error of the multiple-choice branch ends the question without marks.
\<close>

definition grade_answer ::
  "(string \<Rightarrow> jsval option) \<Rightarrow> jsval \<Rightarrow> question \<Rightarrow> nat \<Rightarrow> bool option" where
  "grade_answer parse answers q index =
     (case studentAnswer answers index of
        None \<Rightarrow> None
      | Some sa \<Rightarrow>
          if \<not> truthy sa then Some False
          else (case js_toString sa of
                  None \<Rightarrow> None
                | Some s \<Rightarrow>
                    if trim s = [] then Some False
                    else (let ns = normalize s; nc = normalizedCorrectAnswer q
                          in if nc = [] then Some False
                             else if question_type q = mcq \<and> truthy (options q)
                             then (case grade_mcq parse q ns nc of
                                     None \<Rightarrow> Some False
                                   | Some b \<Rightarrow> Some b)
                             else Some (ns = nc))))"

text \<open>
  One call of the \<^verbatim>\<open>forEach\<close> callback: the outer \<^verbatim>\<open>catch\<close> logs and
  leaves \<^verbatim>\<open>totalScore\<close> as it is. The result is \<open>None\<close> when an error leaves
  the callback.
\<close>

definition grade_question ::
  "(string \<Rightarrow> jsval option) \<Rightarrow> jsval \<Rightarrow> question \<Rightarrow> nat \<Rightarrow> int \<Rightarrow> int option" where
  "grade_question parse answers q index totalScore =
     (case grade_answer parse answers q index of
        None \<Rightarrow> Some totalScore
      | Some credit \<Rightarrow> Some (if credit then totalScore + marks q else totalScore))"

text \<open>\<^verbatim>\<open>questions.forEach((question, index) => ...)\<close> from position \<open>index\<close> on;
  an error that leaves a callback would end the loop.\<close>

fun grade_loop ::
  "(string \<Rightarrow> jsval option) \<Rightarrow> jsval \<Rightarrow> nat \<Rightarrow> question list \<Rightarrow> int \<Rightarrow> int option" where
  "grade_loop parse answers index [] totalScore = Some totalScore"
| "grade_loop parse answers index (q # qs) totalScore =
     (case grade_question parse answers q index totalScore of
        None \<Rightarrow> None
      | Some t \<Rightarrow> grade_loop parse answers (Suc index) qs t)"

definition totalScore :: "(string \<Rightarrow> jsval option) \<Rightarrow> jsval \<Rightarrow> question list \<Rightarrow> int option" where
  "totalScore parse answers qs = grade_loop parse answers 0 qs 0"

subsection \<open>The question analysis loop (teacher routes)\<close>

text \<open>
  The \<^verbatim>\<open>answers\<close> local of the analysis: the stored column is parsed when it is a
  string, taken as it is when it is an object, and \<^verbatim>\<open>{}\<close> otherwise. \<open>None\<close>
  is the \<^verbatim>\<open>return\<close> after a parse error, which skips the attempt.
\<close>

definition attemptAnswers :: "(string \<Rightarrow> jsval option) \<Rightarrow> jsval \<Rightarrow> jsval option" where
  "attemptAnswers parse stored =
     (if truthy stored
      then (case stored of
              JStr s \<Rightarrow> parse s
            | v \<Rightarrow> Some (if typeof_object v then v else JObj []))
      else Some (JObj []))"

text \<open>The inner \<^verbatim>\<open>try\<close> of the analysis; \<open>Some True\<close> is
  \<^verbatim>\<open>correctCount++\<close>.\<close>

definition analyse_mcq :: "(string \<Rightarrow> jsval option) \<Rightarrow> question \<Rightarrow> string \<Rightarrow> string \<Rightarrow> bool option" where
  "analyse_mcq parse q ns nc =
     (case parsedOptions parse q of
        None \<Rightarrow> None
      | Some opts \<Rightarrow>
          if ns = nc then Some True
          else if isArray opts then correctOptionMatch opts ns nc
          else Some False)"

text \<open>The analysis of one answers mapping; its inner \<^verbatim>\<open>catch\<close> compares the two
  normal forms directly.\<close>

definition analyse_answer ::
  "(string \<Rightarrow> jsval option) \<Rightarrow> jsval \<Rightarrow> question \<Rightarrow> nat \<Rightarrow> bool option" where
  "analyse_answer parse answers q index =
     (case studentAnswer answers index of
        None \<Rightarrow> None
      | Some sa \<Rightarrow>
          if \<not> truthy sa then Some False
          else (case js_toString sa of
                  None \<Rightarrow> None
                | Some s \<Rightarrow>
                    (let ns = normalize s; nc = normalizedCorrectAnswer q
                     in if question_type q = mcq \<and> truthy (options q)
                        then (case analyse_mcq parse q ns nc of
                                None \<Rightarrow> Some (ns = nc)
                              | Some b \<Rightarrow> Some b)
                        else Some (ns = nc))))"

text \<open>The body of the \<^verbatim>\<open>try\<close> for one attempt row.\<close>

definition analyse_attempt ::
  "(string \<Rightarrow> jsval option) \<Rightarrow> question \<Rightarrow> nat \<Rightarrow> jsval \<Rightarrow> bool option" where
  "analyse_attempt parse q index stored =
     (case attemptAnswers parse stored of
        None \<Rightarrow> Some False
      | Some answers \<Rightarrow> analyse_answer parse answers q index)"

text \<open>One call of the \<^verbatim>\<open>attempts.forEach\<close> callback, with its \<^verbatim>\<open>catch\<close>.\<close>

definition count_attempt ::
  "(string \<Rightarrow> jsval option) \<Rightarrow> question \<Rightarrow> nat \<Rightarrow> jsval \<Rightarrow> nat \<Rightarrow> nat option" where
  "count_attempt parse q index stored correctCount =
     (case analyse_attempt parse q index stored of
        None \<Rightarrow> Some correctCount
      | Some correct \<Rightarrow> Some (if correct then Suc correctCount else correctCount))"

fun count_loop ::
  "(string \<Rightarrow> jsval option) \<Rightarrow> question \<Rightarrow> nat \<Rightarrow> jsval list \<Rightarrow> nat \<Rightarrow> nat option" where
  "count_loop parse q index [] correctCount = Some correctCount"
| "count_loop parse q index (stored # rest) correctCount =
     (case count_attempt parse q index stored correctCount of
        None \<Rightarrow> None
      | Some c \<Rightarrow> count_loop parse q index rest c)"

definition correctCount :: "(string \<Rightarrow> jsval option) \<Rightarrow> question \<Rightarrow> nat \<Rightarrow> jsval list \<Rightarrow> nat option" where
  "correctCount parse q index attempts = count_loop parse q index attempts 0"

section \<open>The percentage\<close>

text \<open>
  \<^verbatim>\<open>Math.min(100, ((totalScore / quiz.total_marks) * 100)).toFixed(2)\<close> is computed
  on doubles. A double is modelled by the rational number it stands for. Division and
  multiplication give the exact result rounded to the nearest number with a 53 bit
  significand, ties to the even significand (\<open>round_double\<close>). The exponent range of
  the format is not modelled: the quotient of two INT columns is far from its ends.
\<close>

definition rne :: "rat \<Rightarrow> int" where
  "rne x =
     (let f = \<lfloor>x\<rfloor>; r = x - of_int f
      in if r < 1 / 2 then f else if 1 / 2 < r then f + 1 else if even f then f else f + 1)"

text \<open>The exponent \<open>e\<close> with \<open>2^e \<le> x < 2^(e+1)\<close>, for a positive \<open>x\<close>.\<close>

definition binade :: "rat \<Rightarrow> int" where
  "binade x =
     (let d = bitlen (fst (quotient_of x)) - bitlen (snd (quotient_of x))
      in if 2 powi d \<le> x then d else d - 1)"

definition round_double :: "rat \<Rightarrow> rat" where
  "round_double x =
     (if x = 0 then 0
      else (let u = 2 powi (binade \<bar>x\<bar> - 52)
            in sgn x * of_int (rne (\<bar>x\<bar> / u)) * u))"

text \<open>
  \<^verbatim>\<open>x.toFixed(2)\<close>, as the number of hundredths it prints: the integer \<open>n\<close> with
  \<open>n / 100\<close> nearest to the magnitude of \<open>x\<close>, the larger one of two, with the
  sign of \<open>x\<close>.
\<close>

definition toFixed2 :: "rat \<Rightarrow> int" where
  "toFixed2 x = (if x < 0 then - \<lfloor>- x * 100 + 1 / 2\<rfloor> else \<lfloor>x * 100 + 1 / 2\<rfloor>)"

text \<open>
  The percentage of the submit handler, in hundredths (the DECIMAL(5,2) column).
  \<^verbatim>\<open>quiz.total_marks > 0\<close> is false for a missing value, here \<open>None\<close>.
\<close>

definition percentage :: "int option \<Rightarrow> int \<Rightarrow> int" where
  "percentage declared score =
     (case declared of
        None \<Rightarrow> 0
      | Some t \<Rightarrow>
          if 0 < t
          then toFixed2 (min 100 (round_double (round_double (of_int score / of_int t) * 100)))
          else 0)"

section \<open>The tables and the attempt handlers of routes/student.js\<close>

record quiz =
  quiz_id :: nat
  subject_id :: nat
  total_marks :: "int option"
  start_date :: "int option"
  end_date :: "int option"
  is_active :: bool

text \<open>A row of \<^verbatim>\<open>quiz_attempts\<close>; times are milliseconds, the percentage is in
  hundredths, and \<open>answers\<close> is \<open>JNull\<close> until the attempt is submitted.\<close>

record attempt =
  attempt_id :: nat
  attempt_quiz_id :: nat
  attempt_student_id :: nat
  started_at :: int
  submitted_at :: "int option"
  attempt_score :: int
  attempt_percentage :: int
  attempt_answers :: jsval

record db =
  quizzes :: "quiz list"
  student_subjects :: "(nat \<times> nat) list"
  questions :: "question list"
  quiz_attempts :: "attempt list"
  next_attempt_id :: nat

text \<open>\<^verbatim>\<open>SELECT * FROM quizzes WHERE id = ?\<close>, first row. The details handler joins the
  experiment and the subject of the quiz, which its foreign keys guarantee to exist.\<close>

definition select_quiz :: "db \<Rightarrow> nat \<Rightarrow> quiz option" where
  "select_quiz d qid = find (\<lambda>q. quiz_id q = qid) (quizzes d)"

text \<open>\<^verbatim>\<open>SELECT * FROM student_subjects WHERE student_id = ? AND subject_id = ?\<close> is not empty.\<close>

definition enrolled :: "db \<Rightarrow> nat \<Rightarrow> nat \<Rightarrow> bool" where
  "enrolled d student subject = ((student, subject) \<in> set (student_subjects d))"

text \<open>\<^verbatim>\<open>SELECT * FROM quiz_attempts WHERE quiz_id = ? AND student_id = ?\<close>, first row.\<close>

definition select_attempt :: "db \<Rightarrow> nat \<Rightarrow> nat \<Rightarrow> attempt option" where
  "select_attempt d qid student =
     find (\<lambda>a. attempt_quiz_id a = qid \<and> attempt_student_id a = student) (quiz_attempts d)"

text \<open>\<^verbatim>\<open>SELECT * FROM questions WHERE quiz_id = ? ORDER BY id\<close>\<close>

definition select_questions :: "db \<Rightarrow> nat \<Rightarrow> question list" where
  "select_questions d qid = sort_key question_id (filter (\<lambda>q. question_quiz_id q = qid) (questions d))"

text \<open>
  \<^verbatim>\<open>INSERT INTO quiz_attempts (quiz_id, student_id) VALUES (?, ?)\<close>. The table has
  \<^verbatim>\<open>UNIQUE KEY unique_attempt (quiz_id, student_id)\<close>: the insert throws (\<open>None\<close>)
  when the pair has a row. Otherwise the new row takes the column defaults and the next
  identifier, which is the \<^verbatim>\<open>insertId\<close> returned.
\<close>

definition insert_attempt :: "db \<Rightarrow> nat \<Rightarrow> nat \<Rightarrow> int \<Rightarrow> (nat \<times> db) option" where
  "insert_attempt d qid student now =
     (case select_attempt d qid student of
        Some a \<Rightarrow> None
      | None \<Rightarrow>
          Some (next_attempt_id d,
                d\<lparr>quiz_attempts := quiz_attempts d @
                     [\<lparr>attempt_id = next_attempt_id d, attempt_quiz_id = qid,
                       attempt_student_id = student, started_at = now, submitted_at = None,
                       attempt_score = 0, attempt_percentage = 0, attempt_answers = JNull\<rparr>],
                   next_attempt_id := Suc (next_attempt_id d)\<rparr>))"

text \<open>\<^verbatim>\<open>UPDATE quiz_attempts SET answers = ?, score = ?, percentage = ?, submitted_at = NOW() WHERE id = ?\<close>\<close>

definition update_attempt :: "db \<Rightarrow> nat \<Rightarrow> jsval \<Rightarrow> int \<Rightarrow> int \<Rightarrow> int \<Rightarrow> db" where
  "update_attempt d aid answers score pct now =
     d\<lparr>quiz_attempts :=
         map (\<lambda>a. if attempt_id a = aid
                  then a\<lparr>attempt_answers := answers, attempt_score := score,
                         attempt_percentage := pct, submitted_at := Some now\<rparr>
                  else a)
             (quiz_attempts d)\<rparr>"

datatype error =
    AnswersRequired
  | QuizNotFound
  | NotEnrolled
  | QuizNotActive
  | QuizNotStarted
  | QuizEnded
  | AlreadySubmitted
  | NoQuestions
  | ServerError

datatype reply =
    Details nat
  | Resuming nat
  | Started nat
  | Submitted int "int option" int

text \<open>
  A handler runs its queries one after the other, and other requests may run between two
  of them. \<open>other\<close> is what the other requests do to the tables between the SELECT of
  the attempt and the INSERT that follows it; \<open>\<lambda>d. d\<close> is a request that runs alone.
  A handler returns its response and the tables it leaves.
\<close>

text \<open>The last step of the details handler: the questions are read and the attempt is
  returned (the questions are returned with it, without their correct answers).\<close>

definition details_questions :: "db \<Rightarrow> nat \<Rightarrow> nat \<Rightarrow> (error + reply) \<times> db" where
  "details_questions d qid aid =
     (if select_questions d qid = [] then (Inl NoQuestions, d) else (Inr (Details aid), d))"

text \<open>\<^verbatim>\<open>GET /quizzes/details/:id\<close>\<close>

definition quiz_details :: "(db \<Rightarrow> db) \<Rightarrow> int \<Rightarrow> db \<Rightarrow> nat \<Rightarrow> nat \<Rightarrow> (error + reply) \<times> db" where
  "quiz_details other now d student qid =
     (case select_quiz d qid of
        None \<Rightarrow> (Inl QuizNotFound, d)
      | Some quiz \<Rightarrow>
          if \<not> enrolled d student (subject_id quiz) then (Inl NotEnrolled, d)
          else if \<not> is_active quiz then (Inl QuizNotActive, d)
          else if (case start_date quiz of None \<Rightarrow> False | Some s \<Rightarrow> now < s)
          then (Inl QuizNotStarted, d)
          else if (case end_date quiz of None \<Rightarrow> False | Some e \<Rightarrow> e < now)
          then (Inl QuizEnded, d)
          else (case select_attempt d qid student of
                  Some a \<Rightarrow>
                    if submitted_at a \<noteq> None then (Inl AlreadySubmitted, d)
                    else details_questions d qid (attempt_id a)
                | None \<Rightarrow>
                    (case insert_attempt (other d) qid student now of
                       Some (aid, d') \<Rightarrow> details_questions d' qid aid
                     | None \<Rightarrow>
                         (case select_attempt (other d) qid student of
                            Some a \<Rightarrow>
                              if submitted_at a \<noteq> None then (Inl AlreadySubmitted, other d)
                              else details_questions (other d) qid (attempt_id a)
                          | None \<Rightarrow> (Inl ServerError, other d)))))"

text \<open>\<^verbatim>\<open>POST /quizzes/:id/start\<close>; a failed insert is caught by the handler's only
  \<^verbatim>\<open>catch\<close>, which answers 500.\<close>

definition start_quiz :: "(db \<Rightarrow> db) \<Rightarrow> int \<Rightarrow> db \<Rightarrow> nat \<Rightarrow> nat \<Rightarrow> (error + reply) \<times> db" where
  "start_quiz other now d student qid =
     (case select_quiz d qid of
        None \<Rightarrow> (Inl QuizNotFound, d)
      | Some quiz \<Rightarrow>
          if \<not> enrolled d student (subject_id quiz) then (Inl NotEnrolled, d)
          else (case select_attempt d qid student of
                  Some a \<Rightarrow>
                    if submitted_at a \<noteq> None then (Inl AlreadySubmitted, d)
                    else (Inr (Resuming (attempt_id a)), d)
                | None \<Rightarrow>
                    (case insert_attempt (other d) qid student now of
                       Some (aid, d') \<Rightarrow> (Inr (Started aid), d')
                     | None \<Rightarrow> (Inl ServerError, other d))))"

text \<open>The submit handler from the questions on, for the attempt \<open>aid\<close>.\<close>

definition submit_grade ::
  "(string \<Rightarrow> jsval option) \<Rightarrow> int \<Rightarrow> db \<Rightarrow> quiz \<Rightarrow> nat \<Rightarrow> jsval \<Rightarrow> (error + reply) \<times> db" where
  "submit_grade parse now d quiz aid answers =
     (let qs = select_questions d (quiz_id quiz)
      in if qs = [] then (Inl NoQuestions, d)
         else (case totalScore parse answers qs of
                 None \<Rightarrow> (Inl ServerError, d)
               | Some score \<Rightarrow>
                   (let pct = percentage (total_marks quiz) score
                    in (Inr (Submitted score (total_marks quiz) pct),
                        update_attempt d aid answers score pct now))))"

text \<open>\<^verbatim>\<open>POST /quizzes/:id/submit\<close>; the first two tests are
  \<^verbatim>\<open>!answers || typeof answers !== 'object'\<close>.\<close>

definition submit_quiz ::
  "(string \<Rightarrow> jsval option) \<Rightarrow> (db \<Rightarrow> db) \<Rightarrow> int \<Rightarrow> db \<Rightarrow> nat \<Rightarrow> nat \<Rightarrow> jsval \<Rightarrow> (error + reply) \<times> db" where
  "submit_quiz parse other now d student qid answers =
     (if \<not> truthy answers then (Inl AnswersRequired, d)
      else if \<not> typeof_object answers then (Inl AnswersRequired, d)
      else (case select_quiz d qid of
              None \<Rightarrow> (Inl QuizNotFound, d)
            | Some quiz \<Rightarrow>
                if \<not> enrolled d student (subject_id quiz) then (Inl NotEnrolled, d)
                else (case select_attempt d qid student of
                        None \<Rightarrow>
                          (case insert_attempt (other d) qid student now of
                             None \<Rightarrow> (Inl ServerError, other d)
                           | Some (aid, d') \<Rightarrow> submit_grade parse now d' quiz aid answers)
                      | Some a \<Rightarrow>
                          if submitted_at a \<noteq> None then (Inl AlreadySubmitted, d)
                          else submit_grade parse now d quiz (attempt_id a) answers)))"

section \<open>Statements of the specification, and example data\<close>







text \<open>What one question adds to the score: its marks when its processing ends with
  credit, nothing when it ends without or with an error.\<close>

definition marks_awarded :: "(string \<Rightarrow> jsval option) \<Rightarrow> jsval \<Rightarrow> question \<Rightarrow> nat \<Rightarrow> int" where
  "marks_awarded parse answers q index =
     (if grade_answer parse answers q index = Some True then marks q else 0)"

text \<open>The question of the specification's scenario: marks 10, three options, correct
  answer \<^verbatim>\<open>"0"\<close>.\<close>

definition capitals :: question where
  "capitals =
     \<lparr>question_id = 1, question_quiz_id = 7, question_type = mcq, marks = 10,
      options = JArr [JStr ''Paris'', JStr ''London'', JStr ''Berlin''],
      correct_answer = Some ''0''\<rparr>"


text \<open>The row that \<open>insert_attempt\<close> adds.\<close>

definition new_attempt :: "db \<Rightarrow> nat \<Rightarrow> nat \<Rightarrow> int \<Rightarrow> attempt" where
  "new_attempt d qid student now =
     \<lparr>attempt_id = next_attempt_id d, attempt_quiz_id = qid, attempt_student_id = student,
      started_at = now, submitted_at = None, attempt_score = 0, attempt_percentage = 0,
      attempt_answers = JNull\<rparr>"

text \<open>Example tables: student 5 is enrolled in subject 3, whose quiz 7 has the question
  \<open>capitals\<close>. \<open>closed_tables\<close> has the quiz inactive and ended,
  \<open>empty_tables\<close> has no question, \<open>submitted_tables\<close> holds a submitted
  attempt of student 5.\<close>

definition geography :: quiz where
  "geography =
     \<lparr>quiz_id = 7, subject_id = 3, total_marks = Some 10, start_date = None,
      end_date = None, is_active = True\<rparr>"

definition open_tables :: db where
  "open_tables =
     \<lparr>quizzes = [geography], student_subjects = [(5, 3)], questions = [capitals],
      quiz_attempts = [], next_attempt_id = 1\<rparr>"

definition closed_tables :: db where
  "closed_tables = open_tables\<lparr>quizzes := [geography\<lparr>is_active := False, end_date := Some 500\<rparr>]\<rparr>"

definition empty_tables :: db where
  "empty_tables = open_tables\<lparr>questions := []\<rparr>"



text \<open>A second start request of student 5 for quiz 7, running between the queries of
  the first.\<close>

definition racing_start :: "db \<Rightarrow> db" where
  "racing_start d = snd (start_quiz (\<lambda>d. d) 999 d 5 7)"

text \<open>The same question with its options stored as one text that is not JSON, and a
  question without a correct answer.\<close>

definition capitals_unparsed :: question where
  "capitals_unparsed =
     capitals\<lparr>options := JStr ''Paris,London,Berlin'', correct_answer := Some ''Paris''\<rparr>"

definition essay :: question where
  "essay =
     \<lparr>question_id = 2, question_quiz_id = 7, question_type = long_answer, marks = 5,
      options = JNull, correct_answer = None\<rparr>"

text \<open>A quiz of 160 marks whose first question carries 23 of them, with an open attempt
  of student 5.\<close>

definition weighted_quiz :: quiz where
  "weighted_quiz = geography\<lparr>total_marks := Some 160\<rparr>"

definition weighted_tables :: db where
  "weighted_tables =
     \<lparr>quizzes = [weighted_quiz], student_subjects = [(5, 3)],
      questions = [capitals\<lparr>marks := 23\<rparr>, essay\<lparr>marks := 137\<rparr>],
      quiz_attempts = [new_attempt open_tables 7 5 900], next_attempt_id = 2\<rparr>"

text \<open>
  The percentage as the specification states it, in hundredths:
  \<open>min(100, score / total_marks * 100)\<close> computed exactly and rounded to 2 decimal
  places (to the nearest hundredth, a half upwards), and 0 when total_marks is absent or
  not positive.
\<close>

definition spec_percentage :: "int option \<Rightarrow> int \<Rightarrow> int" where
  "spec_percentage declared score =
     (case declared of
        None \<Rightarrow> 0
      | Some t \<Rightarrow>
          if 0 < t then round (min 100 (of_int score / of_int t * 100) * 100 :: rat) else 0)"

text \<open>Two more sets of tables with an open attempt of student 5: a quiz of 3 marks whose
  first question carries 2, and a quiz of 800 marks whose only question carries -1 (the
  INT column takes a negative number, and the teacher route stores what it is given).\<close>

definition thirds_tables :: db where
  "thirds_tables =
     weighted_tables\<lparr>quizzes := [geography\<lparr>total_marks := Some 3\<rparr>],
                     questions := [capitals\<lparr>marks := 2\<rparr>, essay\<lparr>marks := 1\<rparr>]\<rparr>"

definition negative_tables :: db where
  "negative_tables =
     weighted_tables\<lparr>quizzes := [geography\<lparr>total_marks := Some 800\<rparr>],
                     questions := [capitals\<lparr>marks := - 1\<rparr>]\<rparr>"

section \<open>Auxiliary lemmas: decimal keys, reads, loops\<close>











lemma normalize_Nil_iff: "normalize s = [] \<longleftrightarrow> trim s = []"
  by (simp add: normalize_def toLowerCase_def)


lemma select_quiz_id: "select_quiz d qid = Some quiz \<Longrightarrow> quiz_id quiz = qid"
  by (auto simp: select_quiz_def find_Some_iff)

lemma find_append_None: "find P xs = None \<Longrightarrow> find P (xs @ ys) = find P ys"
  by (induction xs) (auto split: if_splits)

lemma select_questions_attempts:
  "select_questions (d\<lparr>quiz_attempts := xs, next_attempt_id := n\<rparr>) qid = select_questions d qid"
  by (simp add: select_questions_def)


lemma grade_loop_sum:
  "grade_loop parse answers index qs t =
     Some (t + (\<Sum>(k, q) \<leftarrow> enumerate index qs. marks_awarded parse answers q k))"
proof (induction qs arbitrary: index t)
  case Nil
  show ?case by simp
next
  case (Cons q qs)
  show ?case
    by (cases "grade_answer parse answers q index")
       (auto simp: grade_question_def marks_awarded_def Cons.IH)
qed

lemma count_loop_length:
  "count_loop parse q index attempts c =
     Some (c + length (filter (\<lambda>stored. analyse_attempt parse q index stored = Some True) attempts))"
proof (induction attempts arbitrary: c)
  case Nil
  show ?case by simp
next
  case (Cons stored rest)
  show ?case
    by (cases "analyse_attempt parse q index stored")
       (auto simp: count_attempt_def Cons.IH)
qed

section \<open>The accepted forms of a multiple-choice question\<close>




section \<open>The answer looked up for a question\<close>




section \<open>Options that do not parse\<close>

text \<open>
  C4, evaluated at a failing input. The multiple-choice question \<open>capitals_unparsed\<close>
  stores its options as the text \<^verbatim>\<open>Paris,London,Berlin\<close>, which
  \<^verbatim>\<open>JSON.parse\<close> rejects, and its correct answer is \<^verbatim>\<open>Paris\<close>. For the
  submitted answer \<^verbatim>\<open>paris\<close> the normal forms are equal; the question analysis
  counts the answer as correct, and the submit handler gives no credit: its inner
  \<^verbatim>\<open>catch\<close> logs the error and does not compare the texts.
\<close>

theorem unparsed_options_lose_credit:
  assumes "parse ''Paris,London,Berlin'' = None"
  shows "normalize ''paris'' = normalizedCorrectAnswer capitals_unparsed
       \<and> grade_answer parse (JObj [(''0'', JStr ''paris'')]) capitals_unparsed 0 = Some False
       \<and> totalScore parse (JObj [(''0'', JStr ''paris'')]) [capitals_unparsed] = Some 0
       \<and> analyse_answer parse (JObj [(''0'', JStr ''paris'')]) capitals_unparsed 0 = Some True"
proof -
  have n: "normalize ''paris'' = ''paris''" "normalize ''Paris'' = ''paris''" "trim ''paris'' = ''paris''"
    by code_simp+
  have s: "studentAnswer (JObj [(''0'', JStr ''paris'')]) 0 = Some (JStr ''paris'')"
    by code_simp
  have p: "parsedOptions parse capitals_unparsed = None"
    using assms by (simp add: parsedOptions_def capitals_unparsed_def capitals_def)
  have g: "grade_answer parse (JObj [(''0'', JStr ''paris'')]) capitals_unparsed 0 = Some False"
    using n s p
    by (simp add: grade_answer_def grade_mcq_def normalizedCorrectAnswer_def
        capitals_unparsed_def capitals_def)
  have a: "analyse_answer parse (JObj [(''0'', JStr ''paris'')]) capitals_unparsed 0 = Some True"
    using n s p
    by (simp add: analyse_answer_def analyse_mcq_def normalizedCorrectAnswer_def
        capitals_unparsed_def capitals_def)
  have t: "totalScore parse (JObj [(''0'', JStr ''paris'')]) [capitals_unparsed] = Some 0"
    using g by (simp add: totalScore_def grade_question_def)
  show ?thesis
    using n g a t by (simp add: normalizedCorrectAnswer_def capitals_unparsed_def capitals_def)
qed

theorem unparsed_options_lose_credit_witness:
  "grade_answer (\<lambda>s. None) (JObj [(''0'', JStr ''paris'')]) capitals_unparsed 0 = Some False
   \<and> analyse_answer (\<lambda>s. None) (JObj [(''0'', JStr ''paris'')]) capitals_unparsed 0 = Some True"
  using unparsed_options_lose_credit [of "\<lambda>s. None"] by simp

section \<open>Errors while grading\<close>

text \<open>
  C7. For every \<open>parse\<close>, answers value and list of questions, the grading loop of
  the submit handler returns a score, and no error leaves it: the score is the sum, over
  the questions at their positions, of the marks of those whose processing ended with
  credit, so that a question whose processing threw adds nothing and the questions after
  it are still graded. Likewise the counting loop of the question analysis returns, for
  every list of stored answers, the number of attempts whose processing ended with a
  correct answer.
\<close>

theorem grading_never_raises:
  "totalScore parse answers qs =
     Some (\<Sum>(k, q) \<leftarrow> enumerate 0 qs. marks_awarded parse answers q k)
   \<and> correctCount parse q index attempts =
     Some (length (filter (\<lambda>stored. analyse_attempt parse q index stored = Some True) attempts))"
  by (simp add: totalScore_def correctCount_def grade_loop_sum count_loop_length)

theorem grading_never_raises_witness:
  "totalScore (\<lambda>s. None) (JObj [(''0'', JObj [(''toString'', JNull)]), (''1'', JStr ''Paris'')])
     [capitals, capitals_unparsed, capitals\<lparr>correct_answer := Some ''paris''\<rparr>] = Some 0
   \<and> totalScore (\<lambda>s. None) (JObj [(''0'', JObj [(''toString'', JNull)]), (''2'', JStr ''Paris'')])
     [capitals, capitals_unparsed, capitals\<lparr>correct_answer := Some ''paris''\<rparr>] = Some 10
   \<and> grade_answer (\<lambda>s. None) (JObj [(''0'', JObj [(''toString'', JNull)]), (''2'', JStr ''Paris'')])
        capitals 0 = None
   \<and> correctCount (\<lambda>s. None) capitals 0 [JStr ''{'', JNull, JObj [(''0'', JStr ''paris'')]] = Some 1"
proof -
  have a: "(\<Sum>(k, q) \<leftarrow> enumerate 0 [capitals, capitals_unparsed, capitals\<lparr>correct_answer := Some ''paris''\<rparr>].
            marks_awarded (\<lambda>s. None) (JObj [(''0'', JObj [(''toString'', JNull)]), (''1'', JStr ''Paris'')]) q k) = 0"
    by code_simp
  have b: "(\<Sum>(k, q) \<leftarrow> enumerate 0 [capitals, capitals_unparsed, capitals\<lparr>correct_answer := Some ''paris''\<rparr>].
            marks_awarded (\<lambda>s. None) (JObj [(''0'', JObj [(''toString'', JNull)]), (''2'', JStr ''Paris'')]) q k) = 10"
    by code_simp
  have c: "grade_answer (\<lambda>s. None) (JObj [(''0'', JObj [(''toString'', JNull)]), (''2'', JStr ''Paris'')])
        capitals 0 = None"
    by code_simp
  have d: "length (filter (\<lambda>stored. analyse_attempt (\<lambda>s. None) capitals 0 stored = Some True)
             [JStr ''{'', JNull, JObj [(''0'', JStr ''paris'')]]) = 1"
    by code_simp
  show ?thesis
    using grading_never_raises [of "\<lambda>s. None" "JObj [(''0'', JObj [(''toString'', JNull)]), (''1'', JStr ''Paris'')]"
        "[capitals, capitals_unparsed, capitals\<lparr>correct_answer := Some ''paris''\<rparr>]" capitals 0
        "[JStr ''{'', JNull, JObj [(''0'', JStr ''paris'')]]"]
      grading_never_raises [of "\<lambda>s. None" "JObj [(''0'', JObj [(''toString'', JNull)]), (''2'', JStr ''Paris'')]"
        "[capitals, capitals_unparsed, capitals\<lparr>correct_answer := Some ''paris''\<rparr>]" capitals 0
        "[JStr ''{'', JNull, JObj [(''0'', JStr ''paris'')]]"]
      a b c d
    by simp
qed

section \<open>The question analysis against the grading\<close>

text \<open>
  C8, evaluated at a failing input. The question \<open>essay\<close> has no correct answer, and
  the stored answers hold one space for it. The submit handler gives it no marks (a blank
  answer is skipped, and so is a question without a correct answer); the question analysis
  has neither test, compares two empty normal forms and counts the attempt as correct.
\<close>

theorem analysis_counts_blank_answer:
  "grade_answer parse (JObj [(''1'', JStr '' '')]) essay 1 = Some False
   \<and> totalScore parse (JObj [(''1'', JStr '' '')]) [capitals, essay] = Some 0
   \<and> analyse_attempt parse essay 1 (JObj [(''1'', JStr '' '')]) = Some True
   \<and> correctCount parse essay 1 [JObj [(''1'', JStr '' '')]] = Some 1"
proof -
  have s: "studentAnswer (JObj [(''1'', JStr '' '')]) 1 = Some (JStr '' '')"
          "studentAnswer (JObj [(''1'', JStr '' '')]) 0 = Some (JStr [])"
    by code_simp+
  have n: "trim '' '' = []" "normalize '' '' = []" by code_simp+
  have g: "grade_answer parse (JObj [(''1'', JStr '' '')]) essay 1 = Some False"
    using s n by (simp add: grade_answer_def)
  have g0: "grade_answer parse (JObj [(''1'', JStr '' '')]) capitals 0 = Some False"
    using s by (simp add: grade_answer_def)
  have a: "analyse_attempt parse essay 1 (JObj [(''1'', JStr '' '')]) = Some True"
    using s n
    by (simp add: analyse_attempt_def attemptAnswers_def analyse_answer_def
        normalizedCorrectAnswer_def essay_def)
  show ?thesis
    using g g0 a
    by (simp add: totalScore_def grade_question_def correctCount_def count_attempt_def)
qed

theorem analysis_counts_blank_answer_witness:
  "analyse_attempt (\<lambda>s. None) essay 1 (JObj [(''1'', JStr '' '')]) = Some True
   \<and> marks_awarded (\<lambda>s. None) (JObj [(''1'', JStr '' '')]) essay 1 = 0"
  using analysis_counts_blank_answer [of "\<lambda>s. None"] by (simp add: marks_awarded_def)

text \<open>
  Where the two copies of the logic agree: when the answer found for the question is not
  blank, and the options of a multiple-choice question are absent or are (or parse to) an
  array, the question analysis counts the answer as correct exactly when the submit
  handler gives the marks.
\<close>

lemma parseInt_Nil: "parseInt [] = None"
  by (simp add: parseInt_def)

lemma analysis_agrees_with_grading:
  assumes blank: "\<And>sa a. studentAnswer answers index = Some sa \<Longrightarrow> truthy sa \<Longrightarrow>
                     js_toString sa = Some a \<Longrightarrow> trim a \<noteq> []"
    and opts: "question_type q = mcq \<Longrightarrow> truthy (options q) \<Longrightarrow>
                 \<exists>xs. parsedOptions parse q = Some (JArr xs)"
  shows "(analyse_answer parse answers q index = Some True)
           = (grade_answer parse answers q index = Some True)"
proof (cases "studentAnswer answers index")
  case None
  then show ?thesis by (simp add: analyse_answer_def grade_answer_def)
next
  case (Some sa)
  show ?thesis
  proof (cases "truthy sa")
    case False
    then show ?thesis using Some by (simp add: analyse_answer_def grade_answer_def)
  next
    case True
    show ?thesis
    proof (cases "js_toString sa")
      case None
      then show ?thesis using Some True by (simp add: analyse_answer_def grade_answer_def)
    next
      case (Some a)
      have t: "trim a \<noteq> []" using blank [OF \<open>studentAnswer answers index = Some sa\<close> True Some] .
      then have ns: "normalize a \<noteq> []" by (simp add: normalize_Nil_iff)
      show ?thesis
      proof (cases "question_type q = mcq \<and> truthy (options q)")
        case False
        then show ?thesis
          using \<open>studentAnswer answers index = Some sa\<close> True Some t ns
          by (auto simp: analyse_answer_def grade_answer_def Let_def)
      next
        case mcq: True
        then obtain xs where xs: "parsedOptions parse q = Some (JArr xs)" using opts by blast
        show ?thesis
          using \<open>studentAnswer answers index = Some sa\<close> True Some t ns mcq xs
          by (auto simp: analyse_answer_def grade_answer_def Let_def analyse_mcq_def
              grade_mcq_def correctOptionMatch_def parseInt_Nil split: option.splits)
      qed
    qed
  qed
qed

section \<open>The percentage of a graded attempt\<close>

subsection \<open>Rounding to the nearest double\<close>

lemma rne_floor: "\<lfloor>x\<rfloor> \<le> rne x \<and> rne x \<le> \<lfloor>x\<rfloor> + 1"
  by (simp add: rne_def Let_def)

lemma rne_bounds: "x - 1 / 2 \<le> of_int (rne x) \<and> of_int (rne x) \<le> x + 1 / 2"
proof -
  define f where "f = \<lfloor>x\<rfloor>"
  have f: "of_int f \<le> x" "x < of_int f + 1" unfolding f_def by linarith+
  have "rne x = (if x - of_int f < 1 / 2 then f else if 1 / 2 < x - of_int f then f + 1
                 else if even f then f else f + 1)"
    by (simp add: rne_def Let_def f_def)
  then show ?thesis using f by (auto split: if_splits)
qed

lemma rne_of_int: "rne (of_int k) = k"
  by (simp add: rne_def)

lemma rne_mono:
  assumes "x \<le> y"
  shows "rne x \<le> rne y"
proof (cases "\<lfloor>x\<rfloor> = \<lfloor>y\<rfloor>")
  case True
  have "x - of_int \<lfloor>y\<rfloor> \<le> y - of_int \<lfloor>y\<rfloor>" using assms by simp
  then show ?thesis using True by (auto simp: rne_def Let_def)
next
  case False
  then have "\<lfloor>x\<rfloor> < \<lfloor>y\<rfloor>" using floor_mono [OF assms] by linarith
  then show ?thesis using rne_floor [of x] rne_floor [of y] by linarith
qed

lemma quotient_of_pos:
  assumes "0 < x"
  shows "0 < fst (quotient_of x) \<and> 0 < snd (quotient_of x)
       \<and> x = of_int (fst (quotient_of x)) / of_int (snd (quotient_of x))"
proof -
  obtain p q where pq: "quotient_of x = (p, q)" by (cases "quotient_of x")
  then have q: "0 < q" by (rule quotient_of_denom_pos)
  have x: "x = of_int p / of_int q" using pq by (rule quotient_of_div)
  have "0 < p"
  proof (rule ccontr)
    assume "\<not> 0 < p"
    then have "of_int p \<le> (0::rat)" by simp
    then have "of_int p / of_int q \<le> (0::rat)" using q by (simp add: divide_nonpos_pos)
    with x assms show False by simp
  qed
  with q x pq show ?thesis by simp
qed

lemma bitlen_powi:
  assumes "0 < p"
  shows "(2::rat) powi (bitlen p - 1) \<le> of_int p \<and> of_int p < (2::rat) powi (bitlen p)"
proof -
  have b: "1 \<le> bitlen p" using assms bitlen_eq_zero_iff [of p] bitlen_nonneg [of p] by linarith
  have lo: "(2::int) ^ nat (bitlen p - 1) \<le> p" and hi: "p < 2 ^ nat (bitlen p)"
    using bitlen_bounds [OF assms] by simp_all
  have "(of_int ((2::int) ^ nat (bitlen p - 1)) :: rat) \<le> of_int p"
    using lo by (simp only: of_int_le_iff)
  moreover have "(of_int p :: rat) < of_int ((2::int) ^ nat (bitlen p))"
    using hi by (simp only: of_int_less_iff)
  ultimately show ?thesis using b by (simp add: power_int_def)
qed

lemma binade_bounds:
  assumes "0 < x"
  shows "2 powi (binade x) \<le> x \<and> x < 2 powi (binade x + 1)"
proof -
  define p where "p = fst (quotient_of x)"
  define q where "q = snd (quotient_of x)"
  define d where "d = bitlen p - bitlen q"
  have pq: "0 < p" "0 < q" "x = of_int p / of_int q"
    using quotient_of_pos [OF assms] by (simp_all add: p_def q_def)
  have P: "(2::rat) powi (bitlen p - 1) \<le> of_int p" "of_int p < (2::rat) powi (bitlen p)"
    using bitlen_powi [OF pq(1)] by simp_all
  have Q: "(2::rat) powi (bitlen q - 1) \<le> of_int q" "of_int q < (2::rat) powi (bitlen q)"
    using bitlen_powi [OF pq(2)] by simp_all
  have qpos: "(0::rat) < of_int q" using pq(2) by simp
  have up: "x < 2 powi (d + 1)"
  proof -
    have "of_int p < (2::rat) powi (bitlen p)" by (rule P(2))
    also have "\<dots> = 2 powi (d + 1) * 2 powi (bitlen q - 1)"
      by (simp add: d_def flip: power_int_add)
    also have "\<dots> \<le> 2 powi (d + 1) * of_int q"
      using Q(1) by (intro mult_left_mono) simp_all
    finally show ?thesis using qpos by (simp add: pq(3) pos_divide_less_eq)
  qed
  have lo: "2 powi (d - 1) < x"
  proof -
    have "2 powi (d - 1) * of_int q < 2 powi (d - 1) * (2::rat) powi (bitlen q)"
      using Q(2) by (intro mult_strict_left_mono) simp_all
    also have "\<dots> = 2 powi (bitlen p - 1)"
      by (simp add: d_def flip: power_int_add)
    also have "\<dots> \<le> of_int p" by (rule P(1))
    finally show ?thesis using qpos by (simp add: pq(3) pos_less_divide_eq)
  qed
  have b: "binade x = (if 2 powi d \<le> x then d else d - 1)"
    by (simp add: binade_def Let_def d_def p_def q_def)
  show ?thesis
  proof (cases "2 powi d \<le> x")
    case True
    then show ?thesis using up b by simp
  next
    case False
    then show ?thesis using lo b by simp
  qed
qed

lemma round_double_pos:
  assumes "0 < x"
  shows "round_double x = of_int (rne (x / 2 powi (binade x - 52))) * 2 powi (binade x - 52)"
  using assms by (simp add: round_double_def Let_def)

lemma round_double_error:
  assumes "0 < x"
  shows "\<bar>round_double x - x\<bar> \<le> x / 2 ^ 53"
proof -
  define u :: rat where "u = 2 powi (binade x - 52)"
  have u: "0 < u" by (simp add: u_def)
  have r: "round_double x = of_int (rne (x / u)) * u"
    using round_double_pos [OF assms] by (simp add: u_def)
  have "\<bar>of_int (rne (x / u)) - x / u\<bar> \<le> 1 / 2"
    using rne_bounds [of "x / u"] by linarith
  then have "\<bar>of_int (rne (x / u)) - x / u\<bar> * u \<le> 1 / 2 * u"
    using u by (intro mult_right_mono) simp_all
  moreover have "\<bar>of_int (rne (x / u)) - x / u\<bar> * u = \<bar>of_int (rne (x / u)) * u - x\<bar>"
  proof -
    have "\<bar>of_int (rne (x / u)) - x / u\<bar> * u = \<bar>(of_int (rne (x / u)) - x / u) * u\<bar>"
      using u by (simp add: abs_mult)
    also have "(of_int (rne (x / u)) - x / u) * u = of_int (rne (x / u)) * u - x"
      using u by (simp add: algebra_simps)
    finally show ?thesis .
  qed
  ultimately have e: "\<bar>round_double x - x\<bar> \<le> u / 2" by (simp add: r)
  have "u = 2 powi (binade x) / 2 ^ 52"
    by (simp add: u_def power_int_diff)
  then have "u / 2 = 2 powi (binade x) / 2 ^ 53" by simp
  also have "\<dots> \<le> x / 2 ^ 53"
    using binade_bounds [OF assms] by (simp add: divide_right_mono)
  finally show ?thesis using e by linarith
qed

lemma round_double_nonneg:
  assumes "0 \<le> x"
  shows "0 \<le> round_double x"
proof (cases "x = 0")
  case True
  then show ?thesis by (simp add: round_double_def)
next
  case False
  then have x: "0 < x" using assms by simp
  have "rne 0 \<le> rne (x / 2 powi (binade x - 52))"
    using x by (intro rne_mono) simp
  then have "0 \<le> rne (x / 2 powi (binade x - 52))" using rne_of_int [of 0] by simp
  then show ?thesis by (simp add: round_double_pos [OF x])
qed

lemma round_double_ge_multiple:
  assumes "0 < x" and "of_int k * 2 powi (binade x - 52) \<le> x"
  shows "of_int k * 2 powi (binade x - 52) \<le> round_double x"
proof -
  define u :: rat where "u = 2 powi (binade x - 52)"
  have u: "0 < u" by (simp add: u_def)
  have "of_int k \<le> x / u" using assms(2) u by (simp add: u_def pos_le_divide_eq)
  then have "rne (of_int k) \<le> rne (x / u)" by (rule rne_mono)
  then have "k \<le> rne (x / u)" by (simp add: rne_of_int)
  then have "(of_int k :: rat) \<le> of_int (rne (x / u))" by simp
  then have "of_int k * u \<le> of_int (rne (x / u)) * u"
    using u by (intro mult_right_mono) simp_all
  then show ?thesis using round_double_pos [OF assms(1)] by (simp add: u_def)
qed

lemma round_double_ge_int:
  assumes "1 \<le> C" and "C \<le> 2 ^ 53" and "of_int C \<le> x"
  shows "of_int C \<le> round_double x"
proof -
  have x: "0 < x" using assms(1,3) by (smt (verit) of_int_0_less_iff less_le_trans zero_less_one)
  define e where "e = binade x"
  have b: "2 powi e \<le> x" "x < 2 powi (e + 1)" using binade_bounds [OF x] by (simp_all add: e_def)
  show ?thesis
  proof (cases "e \<le> 52")
    case True
    define k where "k = C * 2 ^ nat (52 - e)"
    have "(of_int k :: rat) = of_int C * 2 powi (52 - e)"
      using True by (simp add: k_def power_int_def)
    then have "(of_int k :: rat) * 2 powi (e - 52) = of_int C * (2 powi (52 - e) * 2 powi (e - 52))"
      by simp
    also have "(2::rat) powi (52 - e) * 2 powi (e - 52) = 1"
      by (simp flip: power_int_add)
    finally have k: "(of_int k :: rat) * 2 powi (e - 52) = of_int C" by simp
    show ?thesis
      using round_double_ge_multiple [OF x, of k] k assms(3) by (simp add: e_def)
  next
    case False
    have k: "(of_int (2 ^ 52) :: rat) * 2 powi (e - 52) = 2 powi e"
    proof -
      have "(2::rat) powi e = 2 powi (52 + (e - 52))" by simp
      also have "\<dots> = 2 powi 52 * 2 powi (e - 52)" by (subst power_int_add) simp_all
      finally show ?thesis by simp
    qed
    have "(2::rat) powi 53 \<le> 2 powi e" using False by (intro power_int_increasing) simp_all
    moreover have "(of_int C :: rat) \<le> 2 powi 53"
    proof -
      have "(of_int C :: rat) \<le> of_int (2 ^ 53)" using assms(2) by (simp only: of_int_le_iff)
      then show ?thesis by simp
    qed
    ultimately have "(of_int C :: rat) \<le> 2 powi e" by linarith
    moreover have "2 powi e \<le> round_double x"
      using round_double_ge_multiple [OF x, of "2 ^ 52"] k b(1) by (simp add: e_def)
    ultimately show ?thesis by linarith
  qed
qed

subsection \<open>The printed hundredths\<close>

lemma nearest_hundredth:
  fixes m :: rat
  assumes t: "0 < t" "t < 2 ^ 31"
    and n: "\<bar>of_int n - m * 100\<bar> \<le> 1 / 2"
    and m: "\<bar>m - of_int s / of_int t * 100\<bar> \<le> 300 / 2 ^ 53"
  shows "\<bar>of_int n - of_int s / of_int t * 10000\<bar> \<le> (1 / 2 :: rat)"
proof (rule ccontr)
  assume neg: "\<not> \<bar>of_int n - of_int s / of_int t * 10000\<bar> \<le> (1 / 2 :: rat)"
  define D where "D = n * t - 10000 * s"
  define q :: rat where "q = of_int s / of_int t"
  define c :: rat where "c = 30000 / 2 ^ 53"
  have tpos: "(0::rat) < of_int t" using t(1) by simp
  have D: "of_int n - q * 10000 = (of_int D :: rat) / of_int t"
    using tpos by (simp add: D_def q_def field_simps)
  have m': "\<bar>m - q * 100\<bar> \<le> c / 100" using m by (simp add: q_def c_def)
  have "\<bar>of_int n - q * 10000\<bar> \<le> 1 / 2 + c" using n m' by linarith
  then have up: "\<bar>(of_int D :: rat) / of_int t\<bar> \<le> 1 / 2 + c" by (simp add: D)
  have ab: "\<bar>(of_int D :: rat) / of_int t\<bar> = of_int \<bar>D\<bar> / of_int t"
    using tpos by (simp add: abs_divide)
  from up have "(of_int \<bar>D\<bar> :: rat) / of_int t \<le> 1 / 2 + c" by (simp only: ab)
  then have up': "(of_int \<bar>D\<bar> :: rat) \<le> (1 / 2 + c) * of_int t"
    using tpos by (simp only: pos_divide_le_eq)
  have "\<not> \<bar>of_int n - q * 10000\<bar> \<le> (1 / 2 :: rat)" using neg unfolding q_def .
  then have "(1 / 2 :: rat) < \<bar>(of_int D :: rat) / of_int t\<bar>" unfolding D by linarith
  then have "(1 / 2 :: rat) < of_int \<bar>D\<bar> / of_int t" by (simp only: ab)
  then have "1 / 2 * (of_int t :: rat) < of_int \<bar>D\<bar>"
    using tpos by (simp only: pos_less_divide_eq)
  then have "(of_int t :: rat) < of_int (2 * \<bar>D\<bar>)" by simp
  then have "t < 2 * \<bar>D\<bar>" by (simp only: of_int_less_iff)
  then have "t + 1 \<le> 2 * \<bar>D\<bar>" by simp
  then have "(of_int (t + 1) :: rat) \<le> of_int (2 * \<bar>D\<bar>)" by (simp only: of_int_le_iff)
  then have "(of_int t + 1 :: rat) \<le> 2 * of_int \<bar>D\<bar>" by simp
  with up' have "(of_int t + 1 :: rat) \<le> 2 * ((1 / 2 + c) * of_int t)" by linarith
  then have one: "(1 :: rat) \<le> 2 * c * of_int t" by (simp add: algebra_simps)
  have "(of_int t :: rat) < of_int (2 ^ 31)" using t(2) by (simp only: of_int_less_iff)
  then have tb: "(of_int t :: rat) < 2 ^ 31" by simp
  have c0: "0 < c" by (simp add: c_def)
  have "2 * c * of_int t < 2 * c * 2 ^ 31" using tb c0 by (intro mult_strict_left_mono) simp_all
  also have "2 * c * 2 ^ 31 < 1" by (simp add: c_def)
  finally show False using one by simp
qed

lemma toFixed2_nonneg:
  assumes "0 \<le> x"
  shows "toFixed2 x = \<lfloor>x * 100 + 1 / 2\<rfloor>" and "\<bar>of_int (toFixed2 x) - x * 100\<bar> \<le> 1 / 2"
proof -
  show eq: "toFixed2 x = \<lfloor>x * 100 + 1 / 2\<rfloor>" using assms by (simp add: toFixed2_def)
  have "of_int \<lfloor>x * 100 + 1 / 2\<rfloor> \<le> x * 100 + 1 / 2"
       "x * 100 + 1 / 2 < of_int \<lfloor>x * 100 + 1 / 2\<rfloor> + 1"
    by linarith+
  then show "\<bar>of_int (toFixed2 x) - x * 100\<bar> \<le> 1 / 2" unfolding eq by linarith
qed

lemma toFixed2_range:
  assumes "0 \<le> x" and "x \<le> 100"
  shows "0 \<le> toFixed2 x \<and> toFixed2 x \<le> 10000"
proof -
  have "0 \<le> x * 100 + 1 / 2" using assms(1) by simp
  then have lo: "0 \<le> \<lfloor>x * 100 + 1 / 2\<rfloor>" by simp
  have "x * 100 + 1 / 2 < 10001" using assms(2) by simp
  then have "\<lfloor>x * 100 + 1 / 2\<rfloor> < 10001" by (simp add: floor_less_iff)
  with lo show ?thesis using toFixed2_nonneg(1) [OF assms(1)] by simp
qed

lemma double_percent_nonneg:
  assumes "0 \<le> s" and "0 < t"
  shows "0 \<le> round_double (round_double (of_int s / of_int t) * 100)"
proof -
  have "(0::rat) \<le> of_int s / of_int t" using assms by simp
  then have "0 \<le> round_double (of_int s / of_int t)" by (rule round_double_nonneg)
  then have "0 \<le> round_double (of_int s / of_int t) * 100" by simp
  then show ?thesis by (rule round_double_nonneg)
qed

lemma percentage_range:
  assumes "0 \<le> s"
  shows "0 \<le> percentage declared s \<and> percentage declared s \<le> 10000"
proof (cases declared)
  case None
  then show ?thesis by (simp add: percentage_def)
next
  case (Some t)
  show ?thesis
  proof (cases "0 < t")
    case False
    then show ?thesis using Some by (simp add: percentage_def)
  next
    case True
    have "0 \<le> min 100 (round_double (round_double (of_int s / of_int t) * 100))"
      using double_percent_nonneg [OF assms True] by simp
    moreover have "min 100 (round_double (round_double (of_int s / of_int t) * 100)) \<le> 100"
      by simp
    ultimately show ?thesis
      using toFixed2_range Some True by (simp add: percentage_def)
  qed
qed

lemma percentage_full:
  assumes "0 < t" and "t \<le> s"
  shows "percentage (Some t) s = 10000"
proof -
  have "(1::rat) \<le> of_int s / of_int t" using assms by (simp add: pos_le_divide_eq)
  then have "of_int 1 \<le> round_double (of_int s / of_int t)"
    by (intro round_double_ge_int) simp_all
  then have "of_int 100 \<le> round_double (of_int s / of_int t) * 100" by simp
  then have "of_int 100 \<le> round_double (round_double (of_int s / of_int t) * 100)"
    by (intro round_double_ge_int) simp_all
  then have "min 100 (round_double (round_double (of_int s / of_int t) * 100)) = 100"
    by simp
  moreover have "\<lfloor>(100::rat) * 100 + 1 / 2\<rfloor> = 10000"
    by (rule floor_unique) simp_all
  ultimately show ?thesis using assms(1) by (simp add: percentage_def toFixed2_def)
qed

lemma double_percent_error:
  assumes "0 < s" and "s < t"
  shows "\<bar>round_double (round_double (of_int s / of_int t) * 100) - of_int s / of_int t * 100\<bar>
           \<le> 300 / 2 ^ 53"
proof -
  define a :: rat where "a = of_int s / of_int t"
  define a' where "a' = round_double a"
  define b where "b = a' * 100"
  have a: "0 < a" "a < 1" using assms by (simp_all add: a_def)
  have ea: "\<bar>a' - a\<bar> \<le> a / 2 ^ 53" unfolding a'_def by (rule round_double_error [OF a(1)])
  have "a / 2 ^ 53 < a" using a(1) by simp
  with ea have a': "0 < a'" "a' \<le> 2 * a" by linarith+
  have b: "0 < b" "b \<le> 200 * a" using a' by (simp_all add: b_def)
  have eb: "\<bar>round_double b - b\<bar> \<le> b / 2 ^ 53" by (rule round_double_error [OF b(1)])
  define eps :: rat where "eps = 1 / 2 ^ 53"
  have eps: "0 < eps" by (simp add: eps_def)
  have ea': "\<bar>a' - a\<bar> \<le> a * eps" using ea by (simp add: eps_def)
  have eb': "\<bar>round_double b - b\<bar> \<le> b * eps" using eb by (simp add: eps_def)
  have "a * eps \<le> 1 * eps" using a(2) eps by (intro mult_right_mono) simp_all
  with ea' have ea2: "\<bar>a' - a\<bar> \<le> eps" by simp
  have "b \<le> 200" using b(2) a(2) by linarith
  then have "b * eps \<le> 200 * eps" using eps by (intro mult_right_mono) simp_all
  with eb' have eb2: "\<bar>round_double b - b\<bar> \<le> 200 * eps" by linarith
  have "\<bar>round_double (a' * 100) - a * 100\<bar> \<le> 300 * eps"
    using ea2 eb2 unfolding b_def by linarith
  then show ?thesis by (simp add: a_def a'_def eps_def)
qed

lemma percentage_nearest:
  assumes "0 \<le> s" and "0 < t" and "t < 2 ^ 31"
  shows "\<bar>of_int (percentage (Some t) s) / 100 - min 100 (of_int s / of_int t * 100)\<bar>
           \<le> (1 / 200 :: rat)"
proof (cases "t \<le> s")
  case True
  define q :: rat where "q = of_int s / of_int t"
  have "1 \<le> q" using True assms(2) by (simp add: q_def pos_le_divide_eq)
  then have "min 100 (q * 100) = 100" by (simp add: min_def)
  then have mn: "min 100 (of_int s / of_int t * 100) = (100::rat)" by (simp only: q_def)
  have p: "percentage (Some t) s = 10000" by (rule percentage_full [OF assms(2) True])
  show ?thesis unfolding p mn by simp
next
  case False
  then have st: "s < t" by simp
  define y :: rat where "y = of_int s / of_int t * 100"
  define x where "x = round_double (round_double (of_int s / of_int t) * 100)"
  define q :: rat where "q = of_int s / of_int t"
  have q: "0 \<le> q" "q < 1"
    using assms(1,2) st by (simp_all add: q_def pos_divide_less_eq)
  have yq: "y = q * 100" by (simp add: y_def q_def)
  have y: "0 \<le> y" "y < 100" using q unfolding yq by linarith+
  have x0: "0 \<le> x" unfolding x_def by (rule double_percent_nonneg [OF assms(1,2)])
  have ex: "\<bar>x - y\<bar> \<le> 300 / 2 ^ 53"
  proof (cases "s = 0")
    case True
    then show ?thesis by (simp add: x_def y_def round_double_def)
  next
    case False
    then have "0 < s" using assms(1) by simp
    then show ?thesis unfolding x_def y_def by (rule double_percent_error [OF _ st])
  qed
  have em: "\<bar>min 100 x - y\<bar> \<le> 300 / 2 ^ 53" using ex y by (auto simp: min_def)
  have m0: "0 \<le> min 100 x" using x0 by simp
  have n: "\<bar>of_int (toFixed2 (min 100 x)) - min 100 x * 100\<bar> \<le> 1 / 2"
    by (rule toFixed2_nonneg(2) [OF m0])
  have "\<bar>of_int (toFixed2 (min 100 x)) - of_int s / of_int t * 10000\<bar> \<le> (1 / 2 :: rat)"
    using nearest_hundredth [OF assms(2,3) n] em by (simp add: y_def)
  then have "\<bar>of_int (toFixed2 (min 100 x)) - q * 10000\<bar> \<le> (1 / 2 :: rat)"
    unfolding q_def .
  then have near: "\<bar>of_int (toFixed2 (min 100 x)) / 100 - q * 100\<bar> \<le> (1 / 200 :: rat)"
    by linarith
  have p: "percentage (Some t) s = toFixed2 (min 100 x)"
    using assms(2) by (simp add: percentage_def x_def)
  have "min 100 (q * 100) = q * 100" using q by (simp add: min_def)
  then have mn: "min 100 (of_int s / of_int t * 100) = q * 100" unfolding q_def .
  show ?thesis unfolding p mn by (rule near)
qed

lemma marks_awarded_nonneg: "0 \<le> marks q \<Longrightarrow> 0 \<le> marks_awarded parse answers q k"
  by (simp add: marks_awarded_def)

lemma awarded_sum_nonneg:
  "list_all (\<lambda>q. 0 \<le> marks q) qs \<Longrightarrow>
     0 \<le> (\<Sum>(k, q) \<leftarrow> enumerate index qs. marks_awarded parse answers q k)"
proof (induction qs arbitrary: index)
  case Nil
  show ?case by simp
next
  case (Cons q qs)
  then have "0 \<le> marks_awarded parse answers q index"
    and "0 \<le> (\<Sum>(k, q) \<leftarrow> enumerate (Suc index) qs. marks_awarded parse answers q k)"
    by (simp_all add: marks_awarded_nonneg)
  then show ?case by simp
qed

lemma totalScore_nonneg:
  assumes "totalScore parse answers qs = Some score" and "list_all (\<lambda>q. 0 \<le> marks q) qs"
  shows "0 \<le> score"
  using assms awarded_sum_nonneg [OF assms(2), where index = 0 and parse = parse and answers = answers]
  by (simp add: totalScore_def grade_loop_sum)

subsection \<open>Negative scores, and values that are not halfway\<close>

lemma round_double_minus: "round_double (- x) = - round_double x"
  by (simp add: round_double_def Let_def)

lemma toFixed2_minus: "toFixed2 (- x) = - toFixed2 x"
proof -
  have h: "\<lfloor>(1 / 2 :: rat)\<rfloor> = 0" by (rule floor_unique) simp_all
  show ?thesis
  proof (cases "x = 0")
    case True
    then show ?thesis using h by (simp add: toFixed2_def)
  next
    case False
    then show ?thesis by (auto simp: toFixed2_def)
  qed
qed

lemma double_percent_error_rel:
  assumes "0 < s" and "0 < t"
  shows "\<bar>round_double (round_double (of_int s / of_int t) * 100) - of_int s / of_int t * 100\<bar>
           \<le> 300 * (of_int s / of_int t) / 2 ^ 53"
proof -
  define a :: rat where "a = of_int s / of_int t"
  define a' where "a' = round_double a"
  define b where "b = a' * 100"
  define ae where "ae = a / 2 ^ 53"
  have a: "0 < a" using assms by (simp add: a_def)
  have ea: "\<bar>a' - a\<bar> \<le> ae" unfolding a'_def ae_def by (rule round_double_error [OF a])
  have "ae < a" using a by (simp add: ae_def)
  with ea have a': "0 < a'" "a' \<le> 2 * a" by linarith+
  have b: "0 < b" "b \<le> 200 * a" using a' by (simp_all add: b_def)
  have eb: "\<bar>round_double b - b\<bar> \<le> b / 2 ^ 53" by (rule round_double_error [OF b(1)])
  have "b / 2 ^ 53 \<le> (200 * a) / 2 ^ 53" using b(2) by (rule divide_right_mono) simp
  also have "(200 * a) / 2 ^ 53 = 200 * ae" by (simp add: ae_def)
  finally have eb2: "\<bar>round_double b - b\<bar> \<le> 200 * ae" using eb by linarith
  have "\<bar>round_double (a' * 100) - a * 100\<bar> \<le> 300 * ae"
    using ea eb2 unfolding b_def by linarith
  then show ?thesis by (simp add: a_def a'_def ae_def)
qed

lemma nearest_hundredth_rel:
  fixes m :: rat
  assumes t: "0 < t" and s: "0 < s" "s < 2 ^ 31"
    and n: "\<bar>of_int n - m * 100\<bar> \<le> 1 / 2"
    and m: "\<bar>m - of_int s / of_int t * 100\<bar> \<le> 300 * (of_int s / of_int t) / 2 ^ 53"
  shows "\<bar>of_int n - of_int s / of_int t * 10000\<bar> \<le> (1 / 2 :: rat)"
proof (rule ccontr)
  assume neg: "\<not> \<bar>of_int n - of_int s / of_int t * 10000\<bar> \<le> (1 / 2 :: rat)"
  define D where "D = n * t - 10000 * s"
  define q :: rat where "q = of_int s / of_int t"
  define c :: rat where "c = 30000 * q / 2 ^ 53"
  have tpos: "(0::rat) < of_int t" using t by simp
  have D: "of_int n - q * 10000 = (of_int D :: rat) / of_int t"
    using tpos by (simp add: D_def q_def field_simps)
  have m': "\<bar>m - q * 100\<bar> \<le> c / 100" using m by (simp add: q_def c_def)
  have "\<bar>of_int n - q * 10000\<bar> \<le> 1 / 2 + c" using n m' by linarith
  then have up: "\<bar>(of_int D :: rat) / of_int t\<bar> \<le> 1 / 2 + c" by (simp add: D)
  have ab: "\<bar>(of_int D :: rat) / of_int t\<bar> = of_int \<bar>D\<bar> / of_int t"
    using tpos by (simp add: abs_divide)
  from up have "(of_int \<bar>D\<bar> :: rat) / of_int t \<le> 1 / 2 + c" by (simp only: ab)
  then have up': "(of_int \<bar>D\<bar> :: rat) \<le> (1 / 2 + c) * of_int t"
    using tpos by (simp only: pos_divide_le_eq)
  have ct: "c * of_int t = 30000 * of_int s / 2 ^ 53"
    using tpos by (simp add: c_def q_def)
  have "\<not> \<bar>of_int n - q * 10000\<bar> \<le> (1 / 2 :: rat)" using neg unfolding q_def .
  then have "(1 / 2 :: rat) < \<bar>(of_int D :: rat) / of_int t\<bar>" unfolding D by linarith
  then have "(1 / 2 :: rat) < of_int \<bar>D\<bar> / of_int t" by (simp only: ab)
  then have "1 / 2 * (of_int t :: rat) < of_int \<bar>D\<bar>"
    using tpos by (simp only: pos_less_divide_eq)
  then have "(of_int t :: rat) < of_int (2 * \<bar>D\<bar>)" by simp
  then have "t < 2 * \<bar>D\<bar>" by (simp only: of_int_less_iff)
  then have "t + 1 \<le> 2 * \<bar>D\<bar>" by simp
  then have "(of_int (t + 1) :: rat) \<le> of_int (2 * \<bar>D\<bar>)" by (simp only: of_int_le_iff)
  then have "(of_int t + 1 :: rat) \<le> 2 * of_int \<bar>D\<bar>" by simp
  with up' have "(of_int t + 1 :: rat) \<le> 2 * ((1 / 2 + c) * of_int t)" by linarith
  then have "(of_int t + 1 :: rat) \<le> of_int t + 2 * (c * of_int t)" by (simp add: algebra_simps)
  then have one: "(1 :: rat) \<le> 2 * (30000 * of_int s / 2 ^ 53)" unfolding ct by linarith
  have "(of_int s :: rat) < of_int (2 ^ 31)" using s(2) by (simp only: of_int_less_iff)
  then have sb: "(of_int s :: rat) < 2 ^ 31" by simp
  have "2 * (30000 * (of_int s :: rat) / 2 ^ 53) < 2 * (30000 * 2 ^ 31 / 2 ^ 53)"
    using sb by simp
  also have "\<dots> < 1" by simp
  finally show False using one by simp
qed

lemma percentage_negative:
  assumes "s < 0" and "0 < t" and "- (2 ^ 31) < s"
  shows "\<bar>of_int (percentage (Some t) s) / 100 - min 100 (of_int s / of_int t * 100)\<bar>
           \<le> (1 / 200 :: rat)"
proof -
  define p where "p = - s"
  have p: "0 < p" "p < 2 ^ 31" using assms(1,3) by (simp_all add: p_def)
  define q :: rat where "q = of_int p / of_int t"
  define x where "x = round_double (round_double q * 100)"
  have q0: "0 < q" using p(1) assms(2) by (simp add: q_def)
  have sq: "(of_int s / of_int t :: rat) = - q" by (simp add: q_def p_def)
  have "0 \<le> round_double q" using q0 by (intro round_double_nonneg) simp
  then have "0 \<le> round_double q * 100" by simp
  then have x0: "0 \<le> x" unfolding x_def by (rule round_double_nonneg)
  have "round_double (- q) * 100 = - (round_double q * 100)"
    by (simp only: round_double_minus minus_mult_left)
  then have "round_double (round_double (- q) * 100) = round_double (- (round_double q * 100))"
    by (rule arg_cong)
  also have "\<dots> = - x" unfolding x_def by (rule round_double_minus)
  finally have rx: "round_double (round_double (- q) * 100) = - x" .
  have mn: "min 100 (- x) = - x" using x0 by simp
  have pc: "percentage (Some t) s = - toFixed2 x"
    using assms(2) by (simp add: percentage_def sq rx mn toFixed2_minus)
  have ex: "\<bar>x - q * 100\<bar> \<le> 300 * q / 2 ^ 53"
    unfolding x_def q_def by (rule double_percent_error_rel [OF p(1) assms(2)])
  have n: "\<bar>of_int (toFixed2 x) - x * 100\<bar> \<le> 1 / 2" by (rule toFixed2_nonneg(2) [OF x0])
  have "\<bar>of_int (toFixed2 x) - of_int p / of_int t * 10000\<bar> \<le> (1 / 2 :: rat)"
    using nearest_hundredth_rel [OF assms(2) p n] ex by (simp add: q_def)
  then have near: "\<bar>of_int (toFixed2 x) - q * 10000\<bar> \<le> (1 / 2 :: rat)" unfolding q_def .
  have "min 100 (- q * 100) = - q * 100" using q0 by (simp add: min_def)
  then have mq: "min 100 (of_int s / of_int t * 100) = - q * 100" unfolding sq .
  have "\<bar>of_int (- toFixed2 x) / 100 - (- q * 100)\<bar> \<le> (1 / 200 :: rat)"
    using near by (simp only: of_int_minus)
  then show ?thesis unfolding pc mq .
qed

lemma percentage_nearest_all:
  assumes "0 < t" and "t < 2 ^ 31" and "- (2 ^ 31) < s"
  shows "\<bar>of_int (percentage (Some t) s) / 100 - min 100 (of_int s / of_int t * 100)\<bar>
           \<le> (1 / 200 :: rat)"
proof (cases "0 \<le> s")
  case True
  then show ?thesis by (rule percentage_nearest [OF _ assms(1,2)])
next
  case False
  then have "s < 0" by simp
  then show ?thesis by (rule percentage_negative [OF _ assms(1,3)])
qed

lemma nearest_is_round:
  fixes v :: rat
  assumes "\<bar>of_int n - v\<bar> \<le> 1 / 2" and "frac v \<noteq> 1 / 2"
  shows "n = round v"
proof -
  have "of_int n \<noteq> v - 1 / 2"
  proof
    assume "of_int n = v - 1 / 2"
    then have "v = of_int n + 1 / 2" by simp
    then have "frac v = 1 / 2" by (simp add: frac_unique_iff)
    with assms(2) show False by simp
  qed
  with assms(1) have "of_int n \<le> v + 1 / 2" "v + 1 / 2 < of_int n + 1" by linarith+
  then have "\<lfloor>v + 1 / 2\<rfloor> = n" by (intro floor_unique) simp_all
  then show ?thesis by (simp add: round_def)
qed

lemma percentage_is_rounding:
  assumes "0 < t" and "t < 2 ^ 31" and "- (2 ^ 31) < s"
    and "frac (min 100 (of_int s / of_int t * 100) * 100 :: rat) \<noteq> 1 / 2"
  shows "percentage (Some t) s = spec_percentage (Some t) s"
proof -
  define v :: rat where "v = min 100 (of_int s / of_int t * 100)"
  have "\<bar>of_int (percentage (Some t) s) / 100 - v\<bar> \<le> (1 / 200 :: rat)"
    unfolding v_def by (rule percentage_nearest_all [OF assms(1,2,3)])
  then have "\<bar>of_int (percentage (Some t) s) - v * 100\<bar> \<le> (1 / 2 :: rat)" by linarith
  moreover have "frac (v * 100) \<noteq> 1 / 2" unfolding v_def by (rule assms(4))
  ultimately have "percentage (Some t) s = round (v * 100)" by (rule nearest_is_round)
  then show ?thesis using assms(1) by (simp add: spec_percentage_def v_def)
qed

subsection \<open>The stored row\<close>

lemma find_map_same:
  assumes "\<And>x. P (f x) = P x"
  shows "find P (map f xs) = map_option f (find P xs)"
  by (induction xs) (simp_all add: assms)

lemma select_attempt_update:
  assumes "select_attempt d qid student = Some a" and "attempt_id a = aid"
  shows "select_attempt (update_attempt d aid answers score pct now) qid student =
           Some (a\<lparr>attempt_answers := answers, attempt_score := score,
                   attempt_percentage := pct, submitted_at := Some now\<rparr>)"
proof -
  have "find (\<lambda>a. attempt_quiz_id a = qid \<and> attempt_student_id a = student)
          (map (\<lambda>a. if attempt_id a = aid
                     then a\<lparr>attempt_answers := answers, attempt_score := score,
                            attempt_percentage := pct, submitted_at := Some now\<rparr>
                     else a) (quiz_attempts d))
        = map_option (\<lambda>a. if attempt_id a = aid
                     then a\<lparr>attempt_answers := answers, attempt_score := score,
                            attempt_percentage := pct, submitted_at := Some now\<rparr>
                     else a)
            (find (\<lambda>a. attempt_quiz_id a = qid \<and> attempt_student_id a = student) (quiz_attempts d))"
    by (rule find_map_same) simp
  then show ?thesis using assms by (simp add: select_attempt_def update_attempt_def)
qed

lemma select_questions_update:
  "select_questions (update_attempt d aid answers score pct now) qid = select_questions d qid"
  by (simp add: select_questions_def update_attempt_def)

lemma insert_attempt_Some:
  assumes "insert_attempt d qid student now = Some (aid, d1)"
  shows "select_attempt d1 qid student = Some (new_attempt d qid student now)
       \<and> attempt_id (new_attempt d qid student now) = aid
       \<and> select_questions d1 qid = select_questions d qid"
proof -
  have none: "select_attempt d qid student = None"
    using assms by (simp add: insert_attempt_def split: option.splits)
  then have f: "find (\<lambda>a. attempt_quiz_id a = qid \<and> attempt_student_id a = student) (quiz_attempts d) = None"
    by (simp add: select_attempt_def)
  have d1: "d1 = d\<lparr>quiz_attempts := quiz_attempts d @ [new_attempt d qid student now],
                   next_attempt_id := Suc (next_attempt_id d)\<rparr>"
    and aid: "aid = next_attempt_id d"
    using assms none by (auto simp: insert_attempt_def new_attempt_def)
  show ?thesis
    using f by (simp add: d1 aid select_attempt_def find_append_None new_attempt_def
        select_questions_attempts)
qed

lemma submit_grade_stored:
  assumes g: "submit_grade parse now d1 quiz aid answers = (Inr r, d')"
    and q: "quiz_id quiz = qid"
    and a: "select_attempt d1 qid student = Some a0" "attempt_id a0 = aid"
  shows "\<exists>score a.
           r = Submitted score (total_marks quiz) (attempt_percentage a)
         \<and> select_attempt d' qid student = Some a
         \<and> totalScore parse answers (select_questions d' qid) = Some score
         \<and> attempt_score a = score
         \<and> attempt_percentage a = percentage (total_marks quiz) score"
proof -
  obtain score where s: "totalScore parse answers (select_questions d1 qid) = Some score"
    and r: "r = Submitted score (total_marks quiz) (percentage (total_marks quiz) score)"
    and d': "d' = update_attempt d1 aid answers score (percentage (total_marks quiz) score) now"
    using g q by (auto simp: submit_grade_def Let_def split: if_splits option.splits)
  have "select_attempt d' qid student =
          Some (a0\<lparr>attempt_answers := answers, attempt_score := score,
                   attempt_percentage := percentage (total_marks quiz) score,
                   submitted_at := Some now\<rparr>)"
    unfolding d' by (rule select_attempt_update [OF a])
  then show ?thesis using r s by (simp add: d' select_questions_update)
qed

lemma submit_quiz_stored:
  assumes "submit_quiz parse other now d student qid answers = (Inr r, d')"
    and "select_quiz d qid = Some quiz"
  shows "\<exists>score a.
           r = Submitted score (total_marks quiz) (attempt_percentage a)
         \<and> select_attempt d' qid student = Some a
         \<and> totalScore parse answers (select_questions d' qid) = Some score
         \<and> attempt_score a = score
         \<and> attempt_percentage a = percentage (total_marks quiz) score"
proof -
  have q: "quiz_id quiz = qid" using assms(2) by (rule select_quiz_id)
  show ?thesis
  proof (cases "select_attempt d qid student")
    case None
    then obtain aid d1 where i: "insert_attempt (other d) qid student now = Some (aid, d1)"
      and g: "submit_grade parse now d1 quiz aid answers = (Inr r, d')"
      using assms by (auto simp: submit_quiz_def split: if_splits option.splits)
    show ?thesis
      using submit_grade_stored [OF g q] insert_attempt_Some [OF i] by blast
  next
    case (Some a0)
    then have g: "submit_grade parse now d quiz (attempt_id a0) answers = (Inr r, d')"
      using assms by (auto simp: submit_quiz_def split: if_splits option.splits)
    show ?thesis by (rule submit_grade_stored [OF g q Some refl])
  qed
qed

lemma percentage_properties:
  "(case tm of
      None \<Rightarrow> percentage tm score = 0
    | Some t \<Rightarrow>
        if 0 < t
        then (t < 2 ^ 31 \<longrightarrow> - (2 ^ 31) < score \<longrightarrow>
                \<bar>of_int (percentage tm score) / 100 - min 100 (of_int score / of_int t * 100)\<bar>
                    \<le> (1 / 200 :: rat)
                \<and> (frac (min 100 (of_int score / of_int t * 100) * 100 :: rat) \<noteq> 1 / 2 \<longrightarrow>
                     percentage tm score = spec_percentage (Some t) score))
        else percentage tm score = 0)
   \<and> (0 \<le> score \<longrightarrow> 0 \<le> percentage tm score \<and> percentage tm score \<le> 10000)"
proof -
  have r: "0 \<le> score \<longrightarrow> 0 \<le> percentage tm score \<and> percentage tm score \<le> 10000"
    using percentage_range by blast
  show ?thesis
  proof (cases tm)
    case None
    then show ?thesis using r by (simp add: percentage_def)
  next
    case (Some t)
    show ?thesis
    proof (cases "0 < t")
      case False
      then show ?thesis using Some r by (simp add: percentage_def)
    next
      case True
      then show ?thesis
        using Some r percentage_nearest_all [OF True] percentage_is_rounding [OF True]
        by simp
    qed
  qed
qed


text \<open>
  C3, as amended. For every attempt that the submit handler grades, the percentage in the
  response is the one stored in the attempt's row, and it is the handler's computation
  on the quiz's total_marks and the score of the grading loop, which is stored too. It
  is 0, without an error, when total_marks is absent, zero or negative. When total_marks
  is positive (total_marks and the score within the range of an INT column) it is within
  0.005 of \<open>min(100, score / total_marks * 100)\<close>, and it equals that value rounded
  to 2 decimal places whenever the value is not exactly halfway between two hundredths.
  It lies between 0 and 100 whenever the score is not negative, also when the marks of
  the questions add up to more than total_marks.
\<close>

theorem percentage_of_graded_attempt:
  assumes "submit_quiz parse other now d student qid answers = (Inr r, d')"
    and "select_quiz d qid = Some quiz"
  shows "\<exists>score a.
           r = Submitted score (total_marks quiz) (attempt_percentage a)
         \<and> select_attempt d' qid student = Some a
         \<and> totalScore parse answers (select_questions d' qid) = Some score
         \<and> attempt_score a = score
         \<and> attempt_percentage a = percentage (total_marks quiz) score
         \<and> (case total_marks quiz of
              None \<Rightarrow> attempt_percentage a = 0
            | Some t \<Rightarrow>
                if 0 < t
                then (t < 2 ^ 31 \<longrightarrow> - (2 ^ 31) < score \<longrightarrow>
                        \<bar>of_int (attempt_percentage a) / 100
                           - min 100 (of_int score / of_int t * 100)\<bar> \<le> (1 / 200 :: rat)
                        \<and> (frac (min 100 (of_int score / of_int t * 100) * 100 :: rat) \<noteq> 1 / 2 \<longrightarrow>
                             attempt_percentage a = spec_percentage (Some t) score))
                else attempt_percentage a = 0)
         \<and> (0 \<le> score \<longrightarrow> 0 \<le> attempt_percentage a \<and> attempt_percentage a \<le> 10000)"
proof -
  obtain score a where s:
      "r = Submitted score (total_marks quiz) (attempt_percentage a)"
      "select_attempt d' qid student = Some a"
      "totalScore parse answers (select_questions d' qid) = Some score"
      "attempt_score a = score"
      "attempt_percentage a = percentage (total_marks quiz) score"
    using submit_quiz_stored [OF assms] by blast
  show ?thesis
    using s percentage_properties [of "total_marks quiz" score]
    by (intro exI [of _ score] exI [of _ a]) (simp only: s(5), simp)
qed


theorem percentage_of_graded_attempt_witness:
  "fst (submit_quiz (\<lambda>s. None) (\<lambda>d. d) 1000 thirds_tables 5 7 (JObj [(''0'', JStr ''Paris'')]))
     = Inr (Submitted 2 (Some 3) 6667)
   \<and> map_option attempt_percentage
        (select_attempt
           (snd (submit_quiz (\<lambda>s. None) (\<lambda>d. d) 1000 thirds_tables 5 7 (JObj [(''0'', JStr ''Paris'')])))
           7 5) = Some 6667
   \<and> spec_percentage (Some 3) 2 = 6667"
proof -
  define r where "r = fst (submit_quiz (\<lambda>s. None) (\<lambda>d. d) 1000 thirds_tables 5 7 (JObj [(''0'', JStr ''Paris'')]))"
  define d' where "d' = snd (submit_quiz (\<lambda>s. None) (\<lambda>d. d) 1000 thirds_tables 5 7 (JObj [(''0'', JStr ''Paris'')]))"
  have f: "fst (submit_quiz (\<lambda>s. None) (\<lambda>d. d) 1000 thirds_tables 5 7 (JObj [(''0'', JStr ''Paris'')]))
             = Inr (Submitted 2 (Some 3) 6667)"
    by code_simp
  have g: "submit_quiz (\<lambda>s. None) (\<lambda>d. d) 1000 thirds_tables 5 7 (JObj [(''0'', JStr ''Paris'')])
             = (Inr (Submitted 2 (Some 3) 6667), d')"
    using f by (simp add: d'_def prod_eq_iff)
  have h: "select_quiz thirds_tables 7 = Some (geography\<lparr>total_marks := Some 3\<rparr>)" by code_simp
  have sp: "spec_percentage (Some 3) 2 = 6667" by code_simp
  obtain score a where s:
      "Submitted 2 (Some 3) 6667 = Submitted score (total_marks (geography\<lparr>total_marks := Some 3\<rparr>)) (attempt_percentage a)"
      "select_attempt d' 7 5 = Some a"
    using percentage_of_graded_attempt [OF g h] by blast
  then have "attempt_percentage a = 6667" by simp
  with s(2) f sp show ?thesis by (simp add: d'_def)
qed


text \<open>
  C3 as it is stated fails in two places. A credited question with marks -1 in a quiz of
  800 marks gives the score -1, and the percentage returned and stored is -0.13, below 0:
  the handler limits the percentage from above only. And 23 marks of 160 are exactly
  14.375 percent, which rounds to 14.38, where the doubles of the handler give
  14.374999999999998 and \<^verbatim>\<open>toFixed(2)\<close> prints 14.37.
\<close>

theorem percentage_counterexample:
  "fst (submit_quiz (\<lambda>s. None) (\<lambda>d. d) 1000 negative_tables 5 7 (JObj [(''0'', JStr ''Paris'')]))
     = Inr (Submitted (- 1) (Some 800) (- 13))
   \<and> map_option attempt_percentage
        (select_attempt
           (snd (submit_quiz (\<lambda>s. None) (\<lambda>d. d) 1000 negative_tables 5 7 (JObj [(''0'', JStr ''Paris'')])))
           7 5) = Some (- 13)
   \<and> fst (submit_quiz (\<lambda>s. None) (\<lambda>d. d) 1000 weighted_tables 5 7 (JObj [(''0'', JStr ''Paris'')]))
     = Inr (Submitted 23 (Some 160) 1437)
   \<and> spec_percentage (Some 160) 23 = 1438"
  by code_simp

section \<open>The attempt state machine\<close>




text \<open>
  C6, evaluated at a failing input. In \<open>closed_tables\<close> the quiz is inactive and its
  end date has passed. The details handler rejects the enrolled student; the start
  handler creates an attempt, and the submit handler grades and stores the answers:
  neither reads \<^verbatim>\<open>is_active\<close>, \<^verbatim>\<open>start_date\<close> or \<^verbatim>\<open>end_date\<close>.
\<close>

theorem start_and_submit_skip_window:
  "is_active geography \<and> \<not> is_active (geography\<lparr>is_active := False, end_date := Some 500\<rparr>)
   \<and> fst (quiz_details (\<lambda>d. d) 1000 closed_tables 5 7) = Inl QuizNotActive
   \<and> fst (start_quiz (\<lambda>d. d) 1000 closed_tables 5 7) = Inr (Started 1)
   \<and> select_attempt (snd (start_quiz (\<lambda>d. d) 1000 closed_tables 5 7)) 7 5
       = Some (new_attempt closed_tables 7 5 1000)
   \<and> fst (submit_quiz (\<lambda>s. None) (\<lambda>d. d) 1000 closed_tables 5 7 (JObj [(''0'', JStr ''paris'')]))
       = Inr (Submitted 10 (Some 10) 10000)"
  by code_simp

text \<open>
  C9, evaluated at a failing input. Student 5 has no attempt when the handler reads the
  table, and a second start request inserts one before the handler's own INSERT, which
  then fails on the unique key. The details handler reads the attempt again and returns
  it; the start handler and the submit handler answer with a server error.
\<close>

theorem start_insert_failure_is_server_error:
  "select_attempt open_tables 7 5 = None
   \<and> insert_attempt (racing_start open_tables) 7 5 1000 = None
   \<and> start_quiz racing_start 1000 open_tables 5 7 = (Inl ServerError, racing_start open_tables)
   \<and> submit_quiz (\<lambda>s. None) racing_start 1000 open_tables 5 7 (JObj [(''0'', JStr ''paris'')])
       = (Inl ServerError, racing_start open_tables)
   \<and> quiz_details racing_start 1000 open_tables 5 7 = (Inr (Details 1), racing_start open_tables)"
  by code_simp

text \<open>
  C10. When submit is called with an answers object for a quiz that exists and has no
  question, by an enrolled student who has no attempt, and no other request runs in
  between, the request is rejected with the no-questions error, and the tables it leaves
  hold a new attempt of that student for that quiz with no submitted timestamp.
\<close>

theorem submit_without_questions_leaves_attempt:
  assumes "truthy answers" and "typeof_object answers"
    and "select_quiz d qid = Some quiz" and "enrolled d student (subject_id quiz)"
    and "select_attempt d qid student = None"
    and "select_questions d qid = []"
  shows "submit_quiz parse (\<lambda>d. d) now d student qid answers =
           (Inl NoQuestions,
            d\<lparr>quiz_attempts := quiz_attempts d @ [new_attempt d qid student now],
              next_attempt_id := Suc (next_attempt_id d)\<rparr>)
         \<and> select_attempt
             (d\<lparr>quiz_attempts := quiz_attempts d @ [new_attempt d qid student now],
                next_attempt_id := Suc (next_attempt_id d)\<rparr>) qid student
           = Some (new_attempt d qid student now)
         \<and> submitted_at (new_attempt d qid student now) = None"
proof -
  have q: "quiz_id quiz = qid" using assms(3) by (rule select_quiz_id)
  have none: "find (\<lambda>a. attempt_quiz_id a = qid \<and> attempt_student_id a = student) (quiz_attempts d) = None"
    using assms(5) by (simp add: select_attempt_def)
  have sel: "select_attempt
             (d\<lparr>quiz_attempts := quiz_attempts d @ [new_attempt d qid student now],
                next_attempt_id := Suc (next_attempt_id d)\<rparr>) qid student
           = Some (new_attempt d qid student now)"
    using none by (simp add: select_attempt_def find_append_None new_attempt_def)
  have "submit_quiz parse (\<lambda>d. d) now d student qid answers =
           (Inl NoQuestions,
            d\<lparr>quiz_attempts := quiz_attempts d @ [new_attempt d qid student now],
              next_attempt_id := Suc (next_attempt_id d)\<rparr>)"
    using assms q
    by (simp add: submit_quiz_def insert_attempt_def submit_grade_def new_attempt_def
        select_questions_attempts)
  with sel show ?thesis by (simp add: new_attempt_def)
qed

theorem submit_without_questions_leaves_attempt_witness:
  "submit_quiz (\<lambda>s. None) (\<lambda>d. d) 1000 empty_tables 5 7 (JObj [(''0'', JStr ''paris'')]) =
     (Inl NoQuestions,
      empty_tables\<lparr>quiz_attempts := [new_attempt empty_tables 7 5 1000], next_attempt_id := 2\<rparr>)
   \<and> select_attempt empty_tables 7 5 = None"
proof -
  have h3: "select_quiz empty_tables 7 = Some geography" by code_simp
  have h4: "enrolled empty_tables 5 (subject_id geography)" by code_simp
  have h5: "select_attempt empty_tables 7 5 = None" by code_simp
  have h6: "select_questions empty_tables 7 = []" by code_simp
  have e: "quiz_attempts empty_tables = []" "next_attempt_id empty_tables = 1"
    by (simp_all add: empty_tables_def open_tables_def)
  show ?thesis
    using submit_without_questions_leaves_attempt
      [of "JObj [(''0'', JStr ''paris'')]" empty_tables 7 geography 5 "\<lambda>s. None" 1000, OF _ _ h3 h4 h5 h6]
      h5 e
    by simp
qed

end
